theory Spec2Isabelle
  imports Complex_Main "HOL-Library.Log_Nat" "HOL-Library.AList"
begin

section \<open>Chadsembler: a shallow embedding of the assembler and its virtual machine\<close>

text \<open>
  The Python sources under \<open>Chadsembler/imports\<close> are translated function by function.
  Python integers are \<open>int\<close>, Python strings are \<open>string\<close>, a one-character string
  (the result of indexing a string) is a \<open>char\<close>, dictionaries are association lists
  (insertion ordered, as Python's are) or maps, and every exception the interpreter
  can raise is a value of \<open>py_error\<close> returned on the left of a sum.
\<close>

datatype py_error = IndexError | KeyError | ValueError | TypeError | EOFError

subsection \<open>Python builtins used by the sources\<close>

text \<open>\<open>bin(n)\<close> for a non-negative \<open>n\<close>: the prefix \<open>0b\<close> and the binary digits
  without leading zeros.\<close>

definition bit_char :: "nat \<Rightarrow> char" where
  "bit_char d = (if d = 0 then CHR ''0'' else CHR ''1'')"

fun bin_digits :: "nat \<Rightarrow> string" where
  "bin_digits n = (if n < 2 then [bit_char n] else bin_digits (n div 2) @ [bit_char (n mod 2)])"

declare bin_digits.simps [simp del]

definition py_bin :: "nat \<Rightarrow> string" where
  "py_bin n = ''0b'' @ bin_digits n"

text \<open>\<open>int(s, 2)\<close> on a string of binary digits. Python raises ValueError on the empty
  string and on a character that is no digit of base two. (Python also accepts a sign,
  surrounding blanks, the prefix \<open>0b\<close> and underscores between digits; no cell of the
  machine ever holds such a string and the model reports them as ValueError.)\<close>

fun parse_base2 :: "int \<Rightarrow> string \<Rightarrow> py_error + int" where
  "parse_base2 acc [] = Inr acc"
| "parse_base2 acc (c # cs) =
     (if c = CHR ''0'' then parse_base2 (2 * acc) cs
      else if c = CHR ''1'' then parse_base2 (2 * acc + 1) cs
      else Inl ValueError)"

definition int_base2 :: "string \<Rightarrow> py_error + int" where
  "int_base2 s = (if s = [] then Inl ValueError else parse_base2 0 s)"

text \<open>\<open>s * n\<close> for a string \<open>s\<close> and an integer \<open>n\<close>: \<open>n\<close> copies, none when \<open>n\<close> is
  negative.\<close>

definition str_times :: "string \<Rightarrow> int \<Rightarrow> string" where
  "str_times s n = concat (replicate (nat n) s)"

subsection \<open>binarystring.py\<close>

definition toBinary :: "int \<Rightarrow> string" where
  "toBinary denaryNumber = drop 2 (py_bin (nat \<bar>denaryNumber\<bar>))"

definition numberOfBits :: "int \<Rightarrow> int" where
  "numberOfBits denaryNumber = int (length (toBinary denaryNumber))"

definition padBinary :: "string \<Rightarrow> int \<Rightarrow> string \<Rightarrow> string" where
  "padBinary binaryString padNumber padValue = str_times padValue padNumber @ binaryString"

definition unsignedInteger :: "int \<Rightarrow> int \<Rightarrow> string" where
  "unsignedInteger denaryValue numberOfBits0 =
     (let numberOfBits1 = (if numberOfBits0 < 1 then 1 else numberOfBits0);
          binaryAsString = toBinary (denaryValue mod 2 ^ nat numberOfBits1)
      in padBinary binaryAsString (numberOfBits1 - int (length binaryAsString)) ''0'')"

definition signedInteger :: "int \<Rightarrow> int \<Rightarrow> string" where
  "signedInteger denaryValue0 numberOfBits0 =
     (let numberOfBits1 = (if numberOfBits0 < 2 then 2 else numberOfBits0);
          signBit = (if denaryValue0 < 0 then ''1'' else ''0'');
          denaryValue1 = (if denaryValue0 < 0 then \<bar>denaryValue0\<bar> else denaryValue0);
          binaryAsString = toBinary (denaryValue1 mod 2 ^ nat (numberOfBits1 - 1))
      in signBit @ padBinary binaryAsString (numberOfBits1 - int (length binaryAsString) - 1) ''0'')"

definition readUnsignedInteger :: "string \<Rightarrow> py_error + int" where
  "readUnsignedInteger unsignedInteger0 = int_base2 unsignedInteger0"

definition readSignedInteger :: "string \<Rightarrow> py_error + int" where
  "readSignedInteger signedInteger0 =
     (case signedInteger0 of
        [] \<Rightarrow> Inl IndexError
      | c # rest \<Rightarrow>
          (case int_base2 rest of
             Inl e \<Rightarrow> Inl e
           | Inr v \<Rightarrow> Inr ((if c = CHR ''0'' then 1 else - 1) * v)))"

subsection \<open>keywords.py and defaults.py\<close>

definition INSTRUCTION_SET :: "(string \<times> int) list" where
  "INSTRUCTION_SET =
     [(''HLT'', 0), (''ADD'', 1), (''SUB'', 2), (''STA'', 3), (''NOP'', 4), (''LDA'', 5),
      (''BRA'', 6), (''BRZ'', 7), (''BRP'', 8), (''INP'', 9), (''OUT'', 10), (''OUTC'', 11),
      (''OUTB'', 12), (''AND'', 13), (''OR'', 14), (''NOT'', 15), (''XOR'', 16), (''LSL'', 17),
      (''LSR'', 18), (''ASL'', 19), (''ASR'', 20), (''CSL'', 21), (''CSR'', 22), (''CSLC'', 23),
      (''CSRC'', 24), (''CALL'', 25), (''RET'', 26)]"

definition NUMBER_OF_INSTRUCTIONS :: int where
  "NUMBER_OF_INSTRUCTIONS = int (length INSTRUCTION_SET)"

definition NUMBER_OF_INSTRUCTION_OPERANDS :: "(string \<times> int) list" where
  "NUMBER_OF_INSTRUCTION_OPERANDS =
     [(''HLT'', 0), (''NOP'', 0), (''RET'', 0),
      (''INP'', 1), (''OUT'', 1), (''OUTC'', 1), (''OUTB'', 1), (''CALL'', 1),
      (''ADD'', 2), (''SUB'', 2), (''STA'', 2), (''LDA'', 2), (''BRA'', 2), (''BRZ'', 2),
      (''BRP'', 2), (''AND'', 2), (''OR'', 2), (''NOT'', 2), (''XOR'', 2), (''LSL'', 2),
      (''LSR'', 2), (''ASL'', 2), (''ASR'', 2), (''CSL'', 2), (''CSR'', 2), (''CSLC'', 2),
      (''CSRC'', 2)]"

definition DATA_FLOW_INSTRUCTIONS :: "string list" where
  "DATA_FLOW_INSTRUCTIONS = [''STA'', ''INP'']"

definition EXPLICIT_SINGLE_OPERAND_INSTRUCTIONS :: "string list" where
  "EXPLICIT_SINGLE_OPERAND_INSTRUCTIONS = [''CALL'']"

definition BRANCH_INSTRUCTIONS :: "string list" where
  "BRANCH_INSTRUCTIONS = [''BRA'', ''BRZ'', ''BRP'']"

definition CALL_INSTRUCTIONS :: "string list" where
  "CALL_INSTRUCTIONS = [''CALL'']"

definition ASSEMBLY_DIRECTIVES :: "(string \<times> int) list" where
  "ASSEMBLY_DIRECTIVES = [(''DAT'', 0)]"

definition IMMEDIATE_ADDRESSING_MODE :: string where "IMMEDIATE_ADDRESSING_MODE = ''#''"
definition DIRECT_ADDRESSING_MODE :: string where "DIRECT_ADDRESSING_MODE = ''@''"
definition INDIRECT_ADDRESSING_MODE :: string where "INDIRECT_ADDRESSING_MODE = ''>''"
definition REGISTER_ADDRESSING_MODE :: string where "REGISTER_ADDRESSING_MODE = ''%''"

definition ADDRESSING_MODE_CHARACTERS :: string where
  "ADDRESSING_MODE_CHARACTERS =
     IMMEDIATE_ADDRESSING_MODE @ DIRECT_ADDRESSING_MODE @
     INDIRECT_ADDRESSING_MODE @ REGISTER_ADDRESSING_MODE"

definition NUMBER_OF_ADDRESSING_MODES :: int where
  "NUMBER_OF_ADDRESSING_MODES = int (length ADDRESSING_MODE_CHARACTERS)"

definition ADDRESSING_MODES :: "(string \<times> string) list" where
  "ADDRESSING_MODES =
     [(''IMMEDIATE'', IMMEDIATE_ADDRESSING_MODE), (''DIRECT'', DIRECT_ADDRESSING_MODE),
      (''INDIRECT'', INDIRECT_ADDRESSING_MODE), (''REGISTER'', REGISTER_ADDRESSING_MODE),
      (IMMEDIATE_ADDRESSING_MODE, IMMEDIATE_ADDRESSING_MODE),
      (DIRECT_ADDRESSING_MODE, DIRECT_ADDRESSING_MODE),
      (INDIRECT_ADDRESSING_MODE, INDIRECT_ADDRESSING_MODE),
      (REGISTER_ADDRESSING_MODE, REGISTER_ADDRESSING_MODE)]"

definition ADDRESSING_MODE_TO_OPCODE :: "(string \<times> int) list" where
  "ADDRESSING_MODE_TO_OPCODE =
     [(REGISTER_ADDRESSING_MODE, 0), (INDIRECT_ADDRESSING_MODE, 1),
      (DIRECT_ADDRESSING_MODE, 2), (IMMEDIATE_ADDRESSING_MODE, 3)]"

definition GENERAL_PURPOSE_REGISTER :: "(string \<times> string) list" where
  "GENERAL_PURPOSE_REGISTER = [(''REGISTER'', ''REG''), (''REG'', ''REG''), (''R'', ''REG'')]"

definition ACCUMULATOR :: string where "ACCUMULATOR = ''ACC''"
definition RETURN_REGISTER :: string where "RETURN_REGISTER = ''RR''"
definition FLAGS_REGISTER :: string where "FLAGS_REGISTER = ''FR''"
definition PROGRAM_COUNTER :: string where "PROGRAM_COUNTER = ''PC''"

definition SPECIAL_PURPOSE_REGISTERS :: "(string \<times> string) list" where
  "SPECIAL_PURPOSE_REGISTERS =
     [(''ACCUMULATOR'', ACCUMULATOR), (ACCUMULATOR, ACCUMULATOR),
      (''RETURNREGISTER'', RETURN_REGISTER), (RETURN_REGISTER, RETURN_REGISTER),
      (''FLAGSREGISTER'', FLAGS_REGISTER), (FLAGS_REGISTER, FLAGS_REGISTER),
      (''PROGRAMCOUNTER'', PROGRAM_COUNTER), (PROGRAM_COUNTER, PROGRAM_COUNTER)]"

text \<open>The four offsets, read by key in the sources; every key read is present.\<close>

definition ACCUMULATOR_OFFSET :: int where "ACCUMULATOR_OFFSET = 1"
definition PROGRAM_COUNTER_OFFSET :: int where "PROGRAM_COUNTER_OFFSET = 2"
definition RETURN_REGISTER_OFFSET :: int where "RETURN_REGISTER_OFFSET = 3"
definition FLAGS_REGISTER_OFFSET :: int where "FLAGS_REGISTER_OFFSET = 4"

definition SPECIAL_PURPOSE_REGISTERS_OFFSET :: "(string \<times> int) list" where
  "SPECIAL_PURPOSE_REGISTERS_OFFSET =
     [(ACCUMULATOR, ACCUMULATOR_OFFSET), (PROGRAM_COUNTER, PROGRAM_COUNTER_OFFSET),
      (RETURN_REGISTER, RETURN_REGISTER_OFFSET), (FLAGS_REGISTER, FLAGS_REGISTER_OFFSET)]"

definition NUMBER_OF_SPECIAL_PURPOSE_REGISTERS :: int where
  "NUMBER_OF_SPECIAL_PURPOSE_REGISTERS = int (length SPECIAL_PURPOSE_REGISTERS_OFFSET)"

definition OPERAND_SEPERATOR_CHARACTERS :: string where "OPERAND_SEPERATOR_CHARACTERS = '',''"
definition BLOCK_SCOPE_CHARACTERS :: string where "BLOCK_SCOPE_CHARACTERS = ''{}''"
definition LEFT_SCOPE_CHARACTERS :: string where "LEFT_SCOPE_CHARACTERS = ''{''"
definition RIGHT_SCOPE_CHARACTERS :: string where "RIGHT_SCOPE_CHARACTERS = ''}''"

text \<open>Blank, tab and vertical tab; line feed, carriage return and form feed.\<close>

definition WHITE_SPACE_CHARACTERS :: string where
  "WHITE_SPACE_CHARACTERS = [CHR '' '', CHR 0x09, CHR 0x0B]"

definition LINE_BREAK_CHARACTERS :: string where
  "LINE_BREAK_CHARACTERS = [CHR 0x0A, CHR 0x0D, CHR 0x0C]"

definition BEGINNING_OF_LABEL_CHARACTERS :: string where
  "BEGINNING_OF_LABEL_CHARACTERS =
     ''abcdefghijklmnopqrstuvwxyz'' @ ''ABCDEFGHIJKLMNOPQRSTUVWXYZ'' @ ''_''"

definition LABEL_CHARACTERS :: string where
  "LABEL_CHARACTERS =
     ''abcdefghijklmnopqrstuvwxyz'' @ ''ABCDEFGHIJKLMNOPQRSTUVWXYZ'' @ ''_'' @ ''1234567890''"

definition VALUE_CHARACTERS :: string where "VALUE_CHARACTERS = ''1234567890''"
definition VALUE_SIGNS :: string where "VALUE_SIGNS = ''+-''"
definition BEGINNING_OF_VALUE_CHARACTERS :: string where
  "BEGINNING_OF_VALUE_CHARACTERS = ''+-'' @ ''1234567890''"

text \<open>\<open>Defaults.convertToCasing\<close> is \<open>str.upper\<close>. The model covers the characters of
  one byte: the letters a to z become A to Z and every other character stays.\<close>

definition upper_char :: "char \<Rightarrow> char" where
  "upper_char c =
     (let n = (of_char c :: nat) in if 97 \<le> n \<and> n \<le> 122 then char_of (n - 32) else c)"

definition convertToCasing :: "string \<Rightarrow> string" where
  "convertToCasing uncasedString = map upper_char uncasedString"

definition DIRECTIVE_PREFIX :: string where "DIRECTIVE_PREFIX = ''!''"
definition COMMENT_PREFIX :: string where "COMMENT_PREFIX = '';''"
definition TOKEN_DELIMITER :: string where "TOKEN_DELIMITER = ''=''"
definition GLOBAL_INSTRUCTION_POOL_IDENTIFIER :: string where
  "GLOBAL_INSTRUCTION_POOL_IDENTIFIER = ''.MAIN''"
definition DEFAULT_VARIABLE_VALUE :: string where "DEFAULT_VARIABLE_VALUE = ''0''"
definition LINE_BREAK_SYMBOL :: string where "LINE_BREAK_SYMBOL = ''/''"
definition INSTRUCTION_SEPERATOR_SYMBOL :: string where "INSTRUCTION_SEPERATOR_SYMBOL = '',''"
definition MEMORY_CONFIGURATION_OPTION :: string where "MEMORY_CONFIGURATION_OPTION = ''MEMORY''"
definition REGISTERS_CONFIGURATION_OPTION :: string where
  "REGISTERS_CONFIGURATION_OPTION = ''REGISTERS''"
definition CLOCK_CONFIGURATION_OPTION :: string where "CLOCK_CONFIGURATION_OPTION = ''CLOCK''"

text \<open>Reading a dictionary by key raises KeyError when the key is absent.\<close>

definition dict_get :: "('k \<times> 'v) list \<Rightarrow> 'k \<Rightarrow> py_error + 'v" where
  "dict_get d k = (case map_of d k of None \<Rightarrow> Inl KeyError | Some v \<Rightarrow> Inr v)"

subsection \<open>codegenerator.py: the widths and the register wrap\<close>

text \<open>The loop of \<open>__wrapAround\<close> need not end for every pair of bounds, so the model
  is a partial function: \<open>None\<close> is a loop that never returns.\<close>

partial_function (option) wrapAround :: "int \<Rightarrow> int \<Rightarrow> int \<Rightarrow> int option" where
  "wrapAround lowerBound upperBound value0 =
     (if value0 > upperBound
      then wrapAround lowerBound upperBound ((lowerBound - 1) + (value0 - upperBound))
      else Some value0)"

definition calculateNumberOfOperandBits :: "(string \<times> int) list \<Rightarrow> py_error + int" where
  "calculateNumberOfOperandBits configurationTable =
     (case dict_get configurationTable REGISTERS_CONFIGURATION_OPTION of
        Inl e \<Rightarrow> Inl e
      | Inr registers \<Rightarrow>
          (let numberOfRegisters = registers + NUMBER_OF_SPECIAL_PURPOSE_REGISTERS in
           case dict_get configurationTable MEMORY_CONFIGURATION_OPTION of
             Inl e \<Rightarrow> Inl e
           | Inr numberOfMemoryAddresses \<Rightarrow>
               (let operandBits =
                      (if numberOfMemoryAddresses > numberOfRegisters
                       then numberOfBits numberOfMemoryAddresses
                       else numberOfBits numberOfRegisters)
                in Inr (operandBits + 1))))"

text \<open>The four widths that the constructor of \<open>CodeGenerator\<close> computes.\<close>

record instruction_format =
  numberOfMachineOperationBits :: int
  numberOfAddressingModeBits :: int
  numberOfOperandBits :: int
  totalNumberOfInstructionBits :: int

definition codeGeneratorFormat :: "(string \<times> int) list \<Rightarrow> py_error + instruction_format" where
  "codeGeneratorFormat configurationTable =
     (let m = numberOfBits NUMBER_OF_INSTRUCTIONS;
          a = numberOfBits NUMBER_OF_ADDRESSING_MODES
      in case calculateNumberOfOperandBits configurationTable of
           Inl e \<Rightarrow> Inl e
         | Inr ob \<Rightarrow>
             Inr \<lparr>numberOfMachineOperationBits = m, numberOfAddressingModeBits = a,
                  numberOfOperandBits = ob, totalNumberOfInstructionBits = m + a + (2 * ob)\<rparr>)"

text \<open>The width formula in the words of the specification: every part is the ceiling
  of a binary logarithm.\<close>

definition specInstructionWidth :: "int \<Rightarrow> int \<Rightarrow> int" where
  "specInstructionWidth m g =
     int (ceillog2 27) + int (ceillog2 4) + 2 * (int (ceillog2 (nat (max m (g + 4)))) + 1)"

subsection \<open>position.py, untypedtoken.py, typedtoken.py\<close>

record Position =
  row :: int
  column :: int

record UntypedToken = Position +
  tokenValue :: string

datatype token_type =
  END | INSTRUCTION | ADDRESSING_MODE | VALUE | REGISTER | LABEL | SEPERATOR
  | LEFT_BRACE | RIGHT_BRACE | ASSEMBLY_DIRECTIVE | INVALID

record TypedToken = UntypedToken +
  tokenType :: token_type

definition mkUntypedToken :: "string \<Rightarrow> int \<Rightarrow> int \<Rightarrow> UntypedToken" where
  "mkUntypedToken v r c = \<lparr>row = r, column = c, tokenValue = v\<rparr>"

definition mkTypedToken :: "token_type \<Rightarrow> string \<Rightarrow> int \<Rightarrow> int \<Rightarrow> TypedToken" where
  "mkTypedToken t v r c = \<lparr>row = r, column = c, tokenValue = v, tokenType = t\<rparr>"

text \<open>Every stage formats its errors as
  \<open>TYPE found in line ROW at position COLUMN: MESSAGE\<close>; the model keeps the four
  parts instead of the formatted text. The parser has one message without a position.\<close>

datatype error_message = ErrorAt string int int string | ErrorText string

text \<open>\<open>int(s)\<close> on a decimal numeral with an optional sign. Python raises ValueError
  when no digit follows or a character is no digit.\<close>

definition digit_value :: "char \<Rightarrow> int option" where
  "digit_value c =
     (let n = (of_char c :: nat) in if 48 \<le> n \<and> n \<le> 57 then Some (int n - 48) else None)"

fun parse_base10 :: "int \<Rightarrow> string \<Rightarrow> py_error + int" where
  "parse_base10 acc [] = Inr acc"
| "parse_base10 acc (c # cs) =
     (case digit_value c of
        None \<Rightarrow> Inl ValueError
      | Some d \<Rightarrow> parse_base10 (10 * acc + d) cs)"

definition int_base10 :: "string \<Rightarrow> py_error + int" where
  "int_base10 s =
     (case s of
        [] \<Rightarrow> Inl ValueError
      | c # cs \<Rightarrow>
          if c = CHR ''-'' then
            (if cs = [] then Inl ValueError
             else case parse_base10 0 cs of Inl e \<Rightarrow> Inl e | Inr v \<Rightarrow> Inr (- v))
          else if c = CHR ''+'' then
            (if cs = [] then Inl ValueError else parse_base10 0 cs)
          else parse_base10 0 s)"

subsection \<open>argumentprocessor.py\<close>

record ArgumentProcessor =
  listOfArguments :: "string list"
  directivePrefix :: char
  tokenDelimiter :: char
  systemConfigurationTable :: "(string \<times> int) list"
  minimumValuesTable :: "(string \<times> int) list"
  processingErrors :: "error_message list"
  currentPositionTracker :: Position

definition recordError ::
  "ArgumentProcessor \<Rightarrow> int \<Rightarrow> int \<Rightarrow> string \<Rightarrow> string \<Rightarrow> ArgumentProcessor" where
  "recordError self errorRow errorColumn typeOfError errorMessage =
     self\<lparr>processingErrors :=
            processingErrors self @ [ErrorAt typeOfError errorRow errorColumn errorMessage]\<rparr>"

text \<open>The inner loop of \<open>_getTokens\<close>: the index and the column move together to the
  next terminating character.\<close>

function scanSubstring :: "string \<Rightarrow> string \<Rightarrow> nat \<Rightarrow> int \<Rightarrow> nat \<times> int" where
  "scanSubstring currentArgument terminating i col =
     (if i < length currentArgument \<and> currentArgument ! i \<notin> set terminating
      then scanSubstring currentArgument terminating (Suc i) (col + 1)
      else (i, col))"
  by pat_completeness auto
termination
  by (relation "measure (\<lambda>(a, t, i, c). length a - i)") auto

declare scanSubstring.simps [simp del]

lemma scanSubstring_bounds:
  "i \<le> fst (scanSubstring a t i c) \<and> fst (scanSubstring a t i c) \<le> max i (length a)"
proof (induction a t i c rule: scanSubstring.induct)
  case (1 a t i c)
  show ?case
  proof (cases "i < length a \<and> a ! i \<notin> set t")
    case True
    with "1.IH" show ?thesis by (subst (1 2) scanSubstring.simps) auto
  next
    case False
    then show ?thesis by (subst (1 2) scanSubstring.simps) auto
  qed
qed

lemma scanSubstring_progress:
  "i < length a \<Longrightarrow> a ! i \<notin> set t \<Longrightarrow> i < fst (scanSubstring a t i c)"
  using scanSubstring_bounds[of "Suc i" a t "c + 1"]
  by (subst scanSubstring.simps) auto

function getTokens ::
  "ArgumentProcessor \<Rightarrow> nat \<Rightarrow> string \<Rightarrow> string \<Rightarrow> UntypedToken list
     \<Rightarrow> UntypedToken list \<times> ArgumentProcessor" where
  "getTokens self beginningIndex currentArgument terminating generatedStreamOfTokens =
     (if beginningIndex < length currentArgument then
        (if currentArgument ! beginningIndex \<notin> set terminating then
           (let lowerSubstringIndex = beginningIndex;
                scanned = scanSubstring currentArgument terminating beginningIndex
                            (column (currentPositionTracker self));
                upper = fst scanned;
                self1 = self\<lparr>currentPositionTracker :=
                               (currentPositionTracker self)\<lparr>column := snd scanned\<rparr>\<rparr>
            in getTokens self1 upper currentArgument terminating
                 (generatedStreamOfTokens @
                    [mkUntypedToken
                       (convertToCasing
                          (take (upper - lowerSubstringIndex) (drop lowerSubstringIndex currentArgument)))
                       (row (currentPositionTracker self1))
                       (column (currentPositionTracker self1) - int (upper - lowerSubstringIndex))]))
         else
           getTokens
             (self\<lparr>currentPositionTracker :=
                     (currentPositionTracker self)\<lparr>column := column (currentPositionTracker self) + 1\<rparr>\<rparr>)
             (Suc beginningIndex) currentArgument terminating generatedStreamOfTokens)
      else (generatedStreamOfTokens, self))"
  by pat_completeness auto
termination
proof (relation "measure (\<lambda>(s, i, a, t, g). length a - i)", goal_cases)
  case 1
  show ?case by simp
next
  case (2 self i a t g)
  then show ?case
    using scanSubstring_progress[of i a t "column (currentPositionTracker self)"]
      scanSubstring_bounds[of i a t "column (currentPositionTracker self)"]
    by auto
next
  case 3
  then show ?case by auto
qed

declare getTokens.simps [simp del]

definition tokeniseArgument ::
  "ArgumentProcessor \<Rightarrow> string \<Rightarrow> UntypedToken list \<times> ArgumentProcessor" where
  "tokeniseArgument self currentArgument =
     (if length currentArgument = 0 then ([], self)
      else
        (let skip = (currentArgument ! 0 = directivePrefix self);
             currentIndex = (if skip then 1 else 0);
             self1 = (if skip
                      then self\<lparr>currentPositionTracker :=
                             (currentPositionTracker self)\<lparr>column := column (currentPositionTracker self) + 1\<rparr>\<rparr>
                      else self);
             substringTerminatingCharacters =
               LINE_BREAK_CHARACTERS @ WHITE_SPACE_CHARACTERS @ [tokenDelimiter self]
         in getTokens self1 currentIndex currentArgument substringTerminatingCharacters []))"

definition isValidNumberOfTokens ::
  "ArgumentProcessor \<Rightarrow> UntypedToken list \<Rightarrow> bool \<times> ArgumentProcessor" where
  "isValidNumberOfTokens self streamOfTokens =
     (case streamOfTokens of
        [] \<Rightarrow> (False, self)
      | [t] \<Rightarrow>
          (False, recordError self (row t) (column t) ''Syntax Error''
                    ''A Key : Value pair was not found'')
      | [t, u] \<Rightarrow> (True, self)
      | t # u # v # rest \<Rightarrow>
          (False, recordError self (row t) 0 ''Syntax Error''
                    ''Should only contain a single Key : Value pair''))"

definition isValidConfigurationOption ::
  "ArgumentProcessor \<Rightarrow> UntypedToken \<Rightarrow> bool \<times> ArgumentProcessor" where
  "isValidConfigurationOption self configurationOption =
     (if map_of (systemConfigurationTable self) (tokenValue configurationOption) = None
      then (False, recordError self (row configurationOption) (column configurationOption)
                     ''Unknown Option Error'' ''Option is not recognised'')
      else (True, self))"

definition containsNoSign ::
  "ArgumentProcessor \<Rightarrow> UntypedToken \<Rightarrow> py_error + (bool \<times> ArgumentProcessor)" where
  "containsNoSign self configurationValue =
     (case tokenValue configurationValue of
        [] \<Rightarrow> Inl IndexError
      | c # cs \<Rightarrow>
          if c = CHR ''+'' then
            Inr (False, recordError self (row configurationValue) (column configurationValue)
                          ''Invalid Value Error''
                          ''Do not specify the sign of a configuration value'')
          else if c = CHR ''-'' then
            Inr (False, recordError self (row configurationValue) (column configurationValue)
                          ''Invalid Value Error''
                          ''A configuration value must be a non-negative, denary integer'')
          else Inr (True, self))"

fun checkValueCharacters ::
  "ArgumentProcessor \<Rightarrow> int \<Rightarrow> bool \<Rightarrow> int \<Rightarrow> string \<Rightarrow> bool \<times> ArgumentProcessor" where
  "checkValueCharacters self tokenRow isValidConfigurationValue currentPositionCopy [] =
     (isValidConfigurationValue, self)"
| "checkValueCharacters self tokenRow isValidConfigurationValue currentPositionCopy (c # cs) =
     (if \<not> (47 < (of_char c :: nat) \<and> (of_char c :: nat) < 58)
      then checkValueCharacters
             (recordError self tokenRow currentPositionCopy ''Invalid Value Error''
                ''Value must only contain integers'')
             tokenRow False (currentPositionCopy + 1) cs
      else checkValueCharacters self tokenRow isValidConfigurationValue (currentPositionCopy + 1) cs)"

definition isValidConfigurationValue ::
  "ArgumentProcessor \<Rightarrow> UntypedToken \<Rightarrow> bool \<times> ArgumentProcessor" where
  "isValidConfigurationValue self unvalidatedConfigurationValueToken =
     checkValueCharacters self (row unvalidatedConfigurationValueToken) True
       (column unvalidatedConfigurationValueToken) (tokenValue unvalidatedConfigurationValueToken)"

text \<open>The message of the Minimum Value Error ends with the minimum itself in the
  source; the model leaves the number out of the text.\<close>

definition updateSystemConfigurationTable ::
  "ArgumentProcessor \<Rightarrow> UntypedToken \<Rightarrow> UntypedToken \<Rightarrow> py_error + ArgumentProcessor" where
  "updateSystemConfigurationTable self targetConfigurationOptionToken targetConfigurationValueToken =
     (case int_base10 (tokenValue targetConfigurationValueToken) of
        Inl e \<Rightarrow> Inl e
      | Inr configurationValueAsInteger \<Rightarrow>
          (case dict_get (minimumValuesTable self) (tokenValue targetConfigurationOptionToken) of
             Inl e \<Rightarrow> Inl e
           | Inr minimumConfigurationValue \<Rightarrow>
               if configurationValueAsInteger < minimumConfigurationValue
               then Inr (recordError self (row targetConfigurationValueToken)
                           (column targetConfigurationValueToken) ''Minimum Value Error''
                           ''Value is below the minimum'')
               else Inr (self\<lparr>systemConfigurationTable :=
                                AList.update (tokenValue targetConfigurationOptionToken)
                                  configurationValueAsInteger (systemConfigurationTable self)\<rparr>)))"

text \<open>The three checks of \<open>_parseTokenStream\<close> are joined by \<open>or\<close>: a check that
  fails ends the method and the later checks do not run.\<close>

definition parseTokenStream ::
  "ArgumentProcessor \<Rightarrow> UntypedToken list \<Rightarrow> py_error + ArgumentProcessor" where
  "parseTokenStream self streamOfTokens =
     (case isValidNumberOfTokens self streamOfTokens of
        (False, self1) \<Rightarrow> Inr self1
      | (True, self1) \<Rightarrow>
          (case streamOfTokens of
             [configurationOption, configurationValue] \<Rightarrow>
               (case isValidConfigurationOption self1 configurationOption of
                  (False, self2) \<Rightarrow> Inr self2
                | (True, self2) \<Rightarrow>
                    (case containsNoSign self2 configurationValue of
                       Inl e \<Rightarrow> Inl e
                     | Inr (False, self3) \<Rightarrow> Inr self3
                     | Inr (True, self3) \<Rightarrow>
                         (case isValidConfigurationValue self3 configurationValue of
                            (False, self4) \<Rightarrow> Inr self4
                          | (True, self4) \<Rightarrow>
                              updateSystemConfigurationTable self4 configurationOption
                                configurationValue)))
           | _ \<Rightarrow> Inl ValueError))"

fun argumentProcessLoop :: "ArgumentProcessor \<Rightarrow> string list \<Rightarrow> py_error + ArgumentProcessor" where
  "argumentProcessLoop self [] = Inr self"
| "argumentProcessLoop self (argument # arguments) =
     (case tokeniseArgument self argument of
        (tokens, self1) \<Rightarrow>
          (case parseTokenStream self1 tokens of
             Inl e \<Rightarrow> Inl e
           | Inr self2 \<Rightarrow>
               argumentProcessLoop
                 (self2\<lparr>currentPositionTracker :=
                          \<lparr>row = row (currentPositionTracker self2) + 1, column = 1\<rparr>\<rparr>)
                 arguments))"

text \<open>\<open>argumentProcess\<close> without its last step: \<open>_getErrors\<close> prints the recorded
  errors and leaves the program when there is one.\<close>

definition argumentProcess :: "ArgumentProcessor \<Rightarrow> py_error + ArgumentProcessor" where
  "argumentProcess self = argumentProcessLoop self (listOfArguments self)"

definition newArgumentProcessor ::
  "string list \<Rightarrow> string \<Rightarrow> string \<Rightarrow> (string \<times> int) list \<Rightarrow> (string \<times> int) list
     \<Rightarrow> py_error + ArgumentProcessor" where
  "newArgumentProcessor arguments prefix delimiter configuration minimums =
     (case (prefix, delimiter) of
        (p # _, d # _) \<Rightarrow>
          Inr \<lparr>listOfArguments = arguments, directivePrefix = p, tokenDelimiter = d,
               systemConfigurationTable = configuration, minimumValuesTable = minimums,
               processingErrors = [], currentPositionTracker = \<lparr>row = 1, column = 1\<rparr>\<rparr>
      | _ \<Rightarrow> Inl IndexError)"

subsection \<open>binarystring.py: the shifts\<close>

text \<open>Each shift returns the carry bit and the new string; indexing an empty string
  (or position 1 of a string of one character) raises IndexError.\<close>

definition logicalShiftLeft :: "string \<Rightarrow> py_error + (char \<times> string)" where
  "logicalShiftLeft binaryString =
     (case binaryString of [] \<Rightarrow> Inl IndexError | c # cs \<Rightarrow> Inr (c, cs @ ''0''))"

definition logicalShiftRight :: "string \<Rightarrow> py_error + (char \<times> string)" where
  "logicalShiftRight binaryString =
     (if binaryString = [] then Inl IndexError
      else Inr (last binaryString, ''0'' @ butlast binaryString))"

definition arithmeticShiftLeft :: "string \<Rightarrow> py_error + (char \<times> string)" where
  "arithmeticShiftLeft binaryString =
     (case binaryString of
        c0 # c1 # cs \<Rightarrow> Inr (c1, (c1 # cs) @ [c0])
      | _ \<Rightarrow> Inl IndexError)"

definition arithmeticShiftRight :: "string \<Rightarrow> py_error + (char \<times> string)" where
  "arithmeticShiftRight binaryString =
     (if binaryString = [] then Inl IndexError
      else Inr (last binaryString, hd binaryString # butlast binaryString))"

definition circularShiftLeft :: "string \<Rightarrow> py_error + string" where
  "circularShiftLeft binaryString =
     (case binaryString of [] \<Rightarrow> Inl IndexError | c # cs \<Rightarrow> Inr (cs @ [c]))"

definition circularShiftRight :: "string \<Rightarrow> py_error + string" where
  "circularShiftRight binaryString =
     (if binaryString = [] then Inl IndexError
      else Inr (last binaryString # butlast binaryString))"

text \<open>The carry handed to the two shifts with carry is a string of one character, of
  which the source takes the last character: the character itself.\<close>

definition circularShiftLeftWithCarry :: "string \<Rightarrow> char \<Rightarrow> py_error + (char \<times> string)" where
  "circularShiftLeftWithCarry binaryString carryBit =
     (case binaryString of [] \<Rightarrow> Inl IndexError | c # cs \<Rightarrow> Inr (c, cs @ [carryBit]))"

definition circularShiftRightWithCarry :: "string \<Rightarrow> char \<Rightarrow> py_error + (char \<times> string)" where
  "circularShiftRightWithCarry binaryString carryBit =
     (if binaryString = [] then Inl IndexError
      else Inr (last binaryString, carryBit # butlast binaryString))"

subsection \<open>machineoperations.py\<close>

text \<open>
  A run of the machine ends by \<open>sys.exit(0)\<close>, by \<open>sys.exit\<close> with a message, or by an
  exception that nothing catches. An operand that reaches a machine operation is an
  integer, a bit string (for OUTB) or \<open>None\<close> (an addressing mode outside the four
  known ones resolves to nothing). The object \<open>MachineOperations\<close> and the virtual
  machine share one memory pool; the model keeps the pool in the record of the
  operations, together with the lines still to be read from the terminal and what has
  been printed.
\<close>

datatype vm_stop = Exit0 | ExitMessage string | Raised py_error

datatype operand_value = IntOperand int | BinOperand string | NoneOperand

datatype printed = Printed operand_value | PrintedChar int

record MachineOperations =
  memoryPool :: "int \<rightharpoonup> string"
  totalNumberOfBits :: int
  numberOfGeneralPurposeRegisters :: int
  terminalInput :: "string list"
  terminalOutput :: "printed list"

definition pool_get :: "(int \<rightharpoonup> string) \<Rightarrow> int \<Rightarrow> vm_stop + string" where
  "pool_get pool k = (case pool k of None \<Rightarrow> Inl (Raised KeyError) | Some v \<Rightarrow> Inr v)"

definition lift_py :: "py_error + 'a \<Rightarrow> vm_stop + 'a" where
  "lift_py r = (case r of Inl e \<Rightarrow> Inl (Raised e) | Inr v \<Rightarrow> Inr v)"

definition read_cell :: "(int \<rightharpoonup> string) \<Rightarrow> int \<Rightarrow> vm_stop + int" where
  "read_cell pool k =
     (case pool_get pool k of Inl e \<Rightarrow> Inl e | Inr s \<Rightarrow> lift_py (readSignedInteger s))"

definition programCounterAddress :: "int \<Rightarrow> int" where
  "programCounterAddress g = (PROGRAM_COUNTER_OFFSET + g) * - 1"

definition returnRegisterAddress :: "int \<Rightarrow> int" where
  "returnRegisterAddress g = (RETURN_REGISTER_OFFSET + g) * - 1"

definition flagRegisterAddress :: "int \<Rightarrow> int" where
  "flagRegisterAddress g = (FLAGS_REGISTER_OFFSET + g) * - 1"

definition HLT :: "MachineOperations \<Rightarrow> operand_value \<Rightarrow> int \<Rightarrow> vm_stop + MachineOperations" where
  "HLT self sourceOperand destinationOperand = Inl Exit0"

text \<open>ADD, SUB, AND, OR and XOR read the destination cell first and then combine it
  with the source, which fails on \<open>None\<close> and on a bit string.\<close>

definition arithmeticOperation ::
  "(int \<Rightarrow> int \<Rightarrow> int) \<Rightarrow> MachineOperations \<Rightarrow> operand_value \<Rightarrow> int
     \<Rightarrow> vm_stop + MachineOperations" where
  "arithmeticOperation f self sourceOperand destinationOperand =
     (case read_cell (memoryPool self) destinationOperand of
        Inl e \<Rightarrow> Inl e
      | Inr d \<Rightarrow>
          (case sourceOperand of
             IntOperand s \<Rightarrow>
               Inr (self\<lparr>memoryPool := (memoryPool self)
                      (destinationOperand \<mapsto> signedInteger (f d s) (totalNumberOfBits self))\<rparr>)
           | _ \<Rightarrow> Inl (Raised TypeError)))"

definition ADD :: "MachineOperations \<Rightarrow> operand_value \<Rightarrow> int \<Rightarrow> vm_stop + MachineOperations" where
  "ADD = arithmeticOperation (\<lambda>d s. d + s)"

definition SUB :: "MachineOperations \<Rightarrow> operand_value \<Rightarrow> int \<Rightarrow> vm_stop + MachineOperations" where
  "SUB = arithmeticOperation (\<lambda>d s. d - s)"

definition AND :: "MachineOperations \<Rightarrow> operand_value \<Rightarrow> int \<Rightarrow> vm_stop + MachineOperations" where
  "AND = arithmeticOperation (\<lambda>d s. and d s)"

definition OR :: "MachineOperations \<Rightarrow> operand_value \<Rightarrow> int \<Rightarrow> vm_stop + MachineOperations" where
  "OR = arithmeticOperation (\<lambda>d s. or d s)"

definition XOR :: "MachineOperations \<Rightarrow> operand_value \<Rightarrow> int \<Rightarrow> vm_stop + MachineOperations" where
  "XOR = arithmeticOperation (\<lambda>d s. xor d s)"

text \<open>The source operand of STA, INP, BRA, BRZ, BRP and CALL is resolved for an
  address and is always an integer.\<close>

definition STA :: "MachineOperations \<Rightarrow> operand_value \<Rightarrow> int \<Rightarrow> vm_stop + MachineOperations" where
  "STA self sourceOperand destinationOperand =
     (case pool_get (memoryPool self) destinationOperand of
        Inl e \<Rightarrow> Inl e
      | Inr v \<Rightarrow>
          (case sourceOperand of
             IntOperand s \<Rightarrow> Inr (self\<lparr>memoryPool := (memoryPool self)(s \<mapsto> v)\<rparr>)
           | _ \<Rightarrow> Inl (Raised TypeError)))"

definition NOP :: "MachineOperations \<Rightarrow> operand_value \<Rightarrow> int \<Rightarrow> vm_stop + MachineOperations" where
  "NOP self sourceOperand destinationOperand = Inr self"

definition LDA :: "MachineOperations \<Rightarrow> operand_value \<Rightarrow> int \<Rightarrow> vm_stop + MachineOperations" where
  "LDA self sourceOperand destinationOperand =
     (case sourceOperand of
        IntOperand s \<Rightarrow>
          Inr (self\<lparr>memoryPool := (memoryPool self)
                 (destinationOperand \<mapsto> signedInteger s (totalNumberOfBits self))\<rparr>)
      | _ \<Rightarrow> Inl (Raised TypeError))"

definition setProgramCounter :: "MachineOperations \<Rightarrow> operand_value \<Rightarrow> vm_stop + MachineOperations" where
  "setProgramCounter self sourceOperand =
     (case sourceOperand of
        IntOperand s \<Rightarrow>
          Inr (self\<lparr>memoryPool := (memoryPool self)
                 (programCounterAddress (numberOfGeneralPurposeRegisters self)
                    \<mapsto> signedInteger s (totalNumberOfBits self))\<rparr>)
      | _ \<Rightarrow> Inl (Raised TypeError))"

definition BRA :: "MachineOperations \<Rightarrow> operand_value \<Rightarrow> int \<Rightarrow> vm_stop + MachineOperations" where
  "BRA self sourceOperand destinationOperand = setProgramCounter self sourceOperand"

definition BRZ :: "MachineOperations \<Rightarrow> operand_value \<Rightarrow> int \<Rightarrow> vm_stop + MachineOperations" where
  "BRZ self sourceOperand destinationOperand =
     (case read_cell (memoryPool self) destinationOperand of
        Inl e \<Rightarrow> Inl e
      | Inr d \<Rightarrow> if d = 0 then setProgramCounter self sourceOperand else Inr self)"

definition BRP :: "MachineOperations \<Rightarrow> operand_value \<Rightarrow> int \<Rightarrow> vm_stop + MachineOperations" where
  "BRP self sourceOperand destinationOperand =
     (case read_cell (memoryPool self) destinationOperand of
        Inl e \<Rightarrow> Inl e
      | Inr d \<Rightarrow> if d > - 1 then setProgramCounter self sourceOperand else Inr self)"

text \<open>INP reads a line; a line that is no integer ends the run with a message, and a
  terminal without a further line raises EOFError.\<close>

definition INP :: "MachineOperations \<Rightarrow> operand_value \<Rightarrow> int \<Rightarrow> vm_stop + MachineOperations" where
  "INP self sourceOperand destinationOperand =
     (case terminalInput self of
        [] \<Rightarrow> Inl (Raised EOFError)
      | line # lines \<Rightarrow>
          (case int_base10 line of
             Inl e \<Rightarrow>
               Inl (ExitMessage ''Runtime Error: Non-inferrable integer value passed in as input'')
           | Inr n \<Rightarrow>
               (case sourceOperand of
                  IntOperand s \<Rightarrow>
                    Inr (self\<lparr>memoryPool := (memoryPool self)
                           (s \<mapsto> signedInteger n (totalNumberOfBits self)),
                         terminalInput := lines\<rparr>)
                | _ \<Rightarrow> Inl (Raised TypeError))))"

definition OUT :: "MachineOperations \<Rightarrow> operand_value \<Rightarrow> int \<Rightarrow> vm_stop + MachineOperations" where
  "OUT self sourceOperand destinationOperand =
     Inr (self\<lparr>terminalOutput := terminalOutput self @ [Printed sourceOperand]\<rparr>)"

text \<open>\<open>chr\<close> raises ValueError outside the range of code points and TypeError on an
  operand that is no integer.\<close>

definition OUTC :: "MachineOperations \<Rightarrow> operand_value \<Rightarrow> int \<Rightarrow> vm_stop + MachineOperations" where
  "OUTC self sourceOperand destinationOperand =
     (case sourceOperand of
        IntOperand s \<Rightarrow>
          if 0 \<le> s \<and> s < 1114112
          then Inr (self\<lparr>terminalOutput := terminalOutput self @ [PrintedChar s]\<rparr>)
          else Inl (Raised ValueError)
      | _ \<Rightarrow> Inl (Raised TypeError))"

definition OUTB :: "MachineOperations \<Rightarrow> operand_value \<Rightarrow> int \<Rightarrow> vm_stop + MachineOperations" where
  "OUTB self sourceOperand destinationOperand =
     Inr (self\<lparr>terminalOutput := terminalOutput self @ [Printed sourceOperand]\<rparr>)"

definition NOT :: "MachineOperations \<Rightarrow> operand_value \<Rightarrow> int \<Rightarrow> vm_stop + MachineOperations" where
  "NOT self sourceOperand destinationOperand =
     (case sourceOperand of
        IntOperand s \<Rightarrow>
          Inr (self\<lparr>memoryPool := (memoryPool self)
                 (destinationOperand \<mapsto> unsignedInteger (not s) (totalNumberOfBits self))\<rparr>)
      | _ \<Rightarrow> Inl (Raised TypeError))"

text \<open>The loop \<open>for count in range(sourceOperand)\<close> of the shifts: the step gets the
  carry and the value and returns the new carry and the new value.\<close>

fun shiftLoop ::
  "(char \<Rightarrow> string \<Rightarrow> py_error + (char \<times> string)) \<Rightarrow> nat \<Rightarrow> char \<times> string
     \<Rightarrow> py_error + (char \<times> string)" where
  "shiftLoop step 0 fv = Inr fv"
| "shiftLoop step (Suc n) fv =
     (case step (fst fv) (snd fv) of
        Inl e \<Rightarrow> Inl e
      | Inr fv1 \<Rightarrow> shiftLoop step n fv1)"

text \<open>LSL, LSR, ASL, ASR, CSLC and CSRC have one body in the source, six times, which
  differs in the shift it calls: read the last character of the Flags register, read
  the destination, shift, write the padded carry to the Flags register and then the
  value to the destination.\<close>

definition carryShift ::
  "(char \<Rightarrow> string \<Rightarrow> py_error + (char \<times> string)) \<Rightarrow> MachineOperations \<Rightarrow> operand_value
     \<Rightarrow> int \<Rightarrow> vm_stop + MachineOperations" where
  "carryShift step self sourceOperand destinationOperand =
     (let flagAddress = flagRegisterAddress (numberOfGeneralPurposeRegisters self) in
      case pool_get (memoryPool self) flagAddress of
        Inl e \<Rightarrow> Inl e
      | Inr flags \<Rightarrow>
          if flags = [] then Inl (Raised IndexError)
          else
            (case pool_get (memoryPool self) destinationOperand of
               Inl e \<Rightarrow> Inl e
             | Inr newValue0 \<Rightarrow>
                 (case sourceOperand of
                    IntOperand s \<Rightarrow>
                      (case shiftLoop step (nat s) (last flags, newValue0) of
                         Inl e \<Rightarrow> Inl (Raised e)
                       | Inr (newFlagValue, newValue) \<Rightarrow>
                           Inr (self\<lparr>memoryPool := (memoryPool self)
                                  (flagAddress \<mapsto>
                                     padBinary [newFlagValue] (totalNumberOfBits self - 1) ''0'',
                                   destinationOperand \<mapsto> newValue)\<rparr>))
                  | _ \<Rightarrow> Inl (Raised TypeError))))"

definition LSL :: "MachineOperations \<Rightarrow> operand_value \<Rightarrow> int \<Rightarrow> vm_stop + MachineOperations" where
  "LSL = carryShift (\<lambda>carry v. logicalShiftLeft v)"

definition LSR :: "MachineOperations \<Rightarrow> operand_value \<Rightarrow> int \<Rightarrow> vm_stop + MachineOperations" where
  "LSR = carryShift (\<lambda>carry v. logicalShiftRight v)"

definition ASL :: "MachineOperations \<Rightarrow> operand_value \<Rightarrow> int \<Rightarrow> vm_stop + MachineOperations" where
  "ASL = carryShift (\<lambda>carry v. arithmeticShiftLeft v)"

definition ASR :: "MachineOperations \<Rightarrow> operand_value \<Rightarrow> int \<Rightarrow> vm_stop + MachineOperations" where
  "ASR = carryShift (\<lambda>carry v. arithmeticShiftRight v)"

definition CSLC :: "MachineOperations \<Rightarrow> operand_value \<Rightarrow> int \<Rightarrow> vm_stop + MachineOperations" where
  "CSLC = carryShift (\<lambda>carry v. circularShiftLeftWithCarry v carry)"

definition CSRC :: "MachineOperations \<Rightarrow> operand_value \<Rightarrow> int \<Rightarrow> vm_stop + MachineOperations" where
  "CSRC = carryShift (\<lambda>carry v. circularShiftRightWithCarry v carry)"

fun rotateLoop :: "(string \<Rightarrow> py_error + string) \<Rightarrow> nat \<Rightarrow> string \<Rightarrow> py_error + string" where
  "rotateLoop step 0 v = Inr v"
| "rotateLoop step (Suc n) v =
     (case step v of Inl e \<Rightarrow> Inl e | Inr v1 \<Rightarrow> rotateLoop step n v1)"

definition plainShift ::
  "(string \<Rightarrow> py_error + string) \<Rightarrow> MachineOperations \<Rightarrow> operand_value \<Rightarrow> int
     \<Rightarrow> vm_stop + MachineOperations" where
  "plainShift step self sourceOperand destinationOperand =
     (case pool_get (memoryPool self) destinationOperand of
        Inl e \<Rightarrow> Inl e
      | Inr newValue0 \<Rightarrow>
          (case sourceOperand of
             IntOperand s \<Rightarrow>
               (case rotateLoop step (nat s) newValue0 of
                  Inl e \<Rightarrow> Inl (Raised e)
                | Inr newValue \<Rightarrow>
                    Inr (self\<lparr>memoryPool := (memoryPool self)(destinationOperand \<mapsto> newValue)\<rparr>))
           | _ \<Rightarrow> Inl (Raised TypeError)))"

definition CSL :: "MachineOperations \<Rightarrow> operand_value \<Rightarrow> int \<Rightarrow> vm_stop + MachineOperations" where
  "CSL = plainShift circularShiftLeft"

definition CSR :: "MachineOperations \<Rightarrow> operand_value \<Rightarrow> int \<Rightarrow> vm_stop + MachineOperations" where
  "CSR = plainShift circularShiftRight"

definition CALL :: "MachineOperations \<Rightarrow> operand_value \<Rightarrow> int \<Rightarrow> vm_stop + MachineOperations" where
  "CALL self sourceOperand destinationOperand =
     (case pool_get (memoryPool self) (programCounterAddress (numberOfGeneralPurposeRegisters self)) of
        Inl e \<Rightarrow> Inl e
      | Inr pc \<Rightarrow>
          setProgramCounter
            (self\<lparr>memoryPool := (memoryPool self)
               (returnRegisterAddress (numberOfGeneralPurposeRegisters self) \<mapsto> pc)\<rparr>)
            sourceOperand)"

definition RET :: "MachineOperations \<Rightarrow> operand_value \<Rightarrow> int \<Rightarrow> vm_stop + MachineOperations" where
  "RET self sourceOperand destinationOperand =
     (case pool_get (memoryPool self) (returnRegisterAddress (numberOfGeneralPurposeRegisters self)) of
        Inl e \<Rightarrow> Inl e
      | Inr rr \<Rightarrow>
          Inr (self\<lparr>memoryPool := (memoryPool self)
                 (programCounterAddress (numberOfGeneralPurposeRegisters self) \<mapsto> rr)\<rparr>))"

definition instructionMapping ::
  "(int \<times> (MachineOperations \<Rightarrow> operand_value \<Rightarrow> int \<Rightarrow> vm_stop + MachineOperations)) list" where
  "instructionMapping =
     [(0, HLT), (1, ADD), (2, SUB), (3, STA), (4, NOP), (5, LDA), (6, BRA), (7, BRZ), (8, BRP),
      (9, INP), (10, OUT), (11, OUTC), (12, OUTB), (13, AND), (14, OR), (15, NOT), (16, XOR),
      (17, LSL), (18, LSR), (19, ASL), (20, ASR), (21, CSL), (22, CSR), (23, CSLC), (24, CSRC),
      (25, CALL), (26, RET)]"


subsection \<open>virtualmachine.py\<close>

record VirtualMachine =
  configurationTable :: "(string \<times> int) list"
  chadsemblyByteCode :: "string list"
  instructionFormat :: instruction_format
  machineOperations :: MachineOperations

definition OPCODE_TO_INSTRUCTION :: "(int \<times> string) list" where
  "OPCODE_TO_INSTRUCTION = map (\<lambda>(key, val). (val, key)) INSTRUCTION_SET"

definition vm_get :: "('k \<times> 'v) list \<Rightarrow> 'k \<Rightarrow> vm_stop + 'v" where
  "vm_get d k = lift_py (dict_get d k)"

text \<open>\<open>__generateMemoryPool\<close>: the cells \<open>0 .. 2^(O-1) - 1\<close> and then the registers
  \<open>-total .. -1\<close>, all filled with zeros; the configuration table gets the number of
  cells. (The operand width is at least two in every format the generator emits; the
  model takes the exponent as a natural number.)\<close>

definition generateMemoryPool ::
  "(string \<times> int) list \<Rightarrow> instruction_format
     \<Rightarrow> vm_stop + ((string \<times> int) list \<times> (int \<rightharpoonup> string))" where
  "generateMemoryPool configuration format =
     (let defaultValue = str_times ''0'' (totalNumberOfInstructionBits format);
          numberOfMemoryAddresses = 2 ^ nat (numberOfOperandBits format - 1);
          configuration1 =
            AList.update MEMORY_CONFIGURATION_OPTION numberOfMemoryAddresses configuration
      in case vm_get configuration1 REGISTERS_CONFIGURATION_OPTION of
           Inl e \<Rightarrow> Inl e
         | Inr registers \<Rightarrow>
             (let totalNumberOfRegisters = registers + NUMBER_OF_SPECIAL_PURPOSE_REGISTERS;
                  pool0 = map_of (map (\<lambda>index. (index, defaultValue))
                                    [0..numberOfMemoryAddresses - 1])
              in Inr (configuration1,
                      fold (\<lambda>register pool. pool(register * - 1 \<mapsto> defaultValue))
                        (rev [1..totalNumberOfRegisters]) pool0)))"

definition newVirtualMachine ::
  "(string \<times> int) list \<Rightarrow> string list \<Rightarrow> int \<Rightarrow> int \<Rightarrow> int \<Rightarrow> int \<Rightarrow> string list
     \<Rightarrow> vm_stop + VirtualMachine" where
  "newVirtualMachine configuration byteCode m a ob w input =
     (let format = \<lparr>numberOfMachineOperationBits = m, numberOfAddressingModeBits = a,
                    numberOfOperandBits = ob, totalNumberOfInstructionBits = w\<rparr>
      in case generateMemoryPool configuration format of
           Inl e \<Rightarrow> Inl e
         | Inr (configuration1, pool) \<Rightarrow>
             (case vm_get configuration1 REGISTERS_CONFIGURATION_OPTION of
                Inl e \<Rightarrow> Inl e
              | Inr registers \<Rightarrow>
                  Inr \<lparr>configurationTable = configuration1, chadsemblyByteCode = byteCode,
                       instructionFormat = format,
                       machineOperations =
                         \<lparr>memoryPool = pool, totalNumberOfBits = w,
                          numberOfGeneralPurposeRegisters = registers,
                          terminalInput = input, terminalOutput = []\<rparr>\<rparr>))"

definition vmPool :: "VirtualMachine \<Rightarrow> (int \<rightharpoonup> string)" where
  "vmPool self = memoryPool (machineOperations self)"

definition setPool :: "VirtualMachine \<Rightarrow> (int \<rightharpoonup> string) \<Rightarrow> VirtualMachine" where
  "setPool self pool = self\<lparr>machineOperations := (machineOperations self)\<lparr>memoryPool := pool\<rparr>\<rparr>"

fun loadCells :: "(int \<rightharpoonup> string) \<Rightarrow> int \<Rightarrow> string list \<Rightarrow> (int \<rightharpoonup> string)" where
  "loadCells pool index [] = pool"
| "loadCells pool index (code # codes) = loadCells (pool(index \<mapsto> code)) (index + 1) codes"

definition loader :: "VirtualMachine \<Rightarrow> vm_stop + VirtualMachine" where
  "loader self =
     (case vm_get (configurationTable self) MEMORY_CONFIGURATION_OPTION of
        Inl e \<Rightarrow> Inl e
      | Inr numberOfMemoryLocations \<Rightarrow>
          if int (length (chadsemblyByteCode self)) > numberOfMemoryLocations
          then Inl (ExitMessage
                 ''Runtime Error: Cannot load all instructions and any variables into memory'')
          else Inr (setPool self (loadCells (vmPool self) 0 (chadsemblyByteCode self))))"

text \<open>The three resolutions of the source operand. The addressing mode is compared
  with the opcodes REGISTER 0, INDIRECT 1, DIRECT 2 and IMMEDIATE 3; a method that
  falls through every comparison returns \<open>None\<close>.\<close>

definition resolveForValue :: "VirtualMachine \<Rightarrow> int \<Rightarrow> int \<Rightarrow> vm_stop + operand_value" where
  "resolveForValue self addressingMode operandValue =
     (if addressingMode = 2 then
        (case read_cell (vmPool self) operandValue of
           Inl e \<Rightarrow> Inl e | Inr v \<Rightarrow> Inr (IntOperand v))
      else if addressingMode = 1 then
        (case read_cell (vmPool self) operandValue of
           Inl e \<Rightarrow> Inl e
         | Inr address \<Rightarrow>
             (case read_cell (vmPool self) address of
                Inl e \<Rightarrow> Inl e | Inr v \<Rightarrow> Inr (IntOperand v)))
      else if addressingMode = 0 then
        (case read_cell (vmPool self) (operandValue * - 1) of
           Inl e \<Rightarrow> Inl e | Inr v \<Rightarrow> Inr (IntOperand v))
      else if addressingMode = 3 then Inr (IntOperand operandValue)
      else Inr NoneOperand)"

definition resolveForAddress :: "VirtualMachine \<Rightarrow> int \<Rightarrow> int \<Rightarrow> vm_stop + operand_value" where
  "resolveForAddress self addressingMode operandValue =
     (if addressingMode = 1 then
        (case read_cell (vmPool self) operandValue of
           Inl e \<Rightarrow> Inl e | Inr v \<Rightarrow> Inr (IntOperand v))
      else if addressingMode = 0 then Inr (IntOperand (operandValue * - 1))
      else Inr (IntOperand operandValue))"

definition resolveForBinary :: "VirtualMachine \<Rightarrow> int \<Rightarrow> int \<Rightarrow> vm_stop + operand_value" where
  "resolveForBinary self addressingMode operandValue =
     (if addressingMode = 2 then
        (case pool_get (vmPool self) operandValue of
           Inl e \<Rightarrow> Inl e | Inr s \<Rightarrow> Inr (BinOperand s))
      else if addressingMode = 1 then
        (case read_cell (vmPool self) operandValue of
           Inl e \<Rightarrow> Inl e
         | Inr address \<Rightarrow>
             (case pool_get (vmPool self) address of
                Inl e \<Rightarrow> Inl e | Inr s \<Rightarrow> Inr (BinOperand s)))
      else if addressingMode = 0 then
        (case pool_get (vmPool self) (operandValue * - 1) of
           Inl e \<Rightarrow> Inl e | Inr s \<Rightarrow> Inr (BinOperand s))
      else if addressingMode = 3 then
        Inr (BinOperand (signedInteger operandValue
                           (totalNumberOfInstructionBits (instructionFormat self))))
      else Inr NoneOperand)"

definition inContainers :: "string \<Rightarrow> string list list \<Rightarrow> bool" where
  "inContainers targetValue containers = list_ex (\<lambda>container. targetValue \<in> set container) containers"

definition resolveSourceOperand ::
  "VirtualMachine \<Rightarrow> int \<Rightarrow> int \<Rightarrow> int \<Rightarrow> vm_stop + operand_value" where
  "resolveSourceOperand self machineOperation addressingMode sourceOperand =
     (case map_of OPCODE_TO_INSTRUCTION machineOperation of
        None \<Rightarrow>
          Inl (ExitMessage
                 ''Runtime Error: The opcode does not map to any machine operation'')
      | Some chadsemblyInstruction \<Rightarrow>
          if inContainers chadsemblyInstruction
               [DATA_FLOW_INSTRUCTIONS, BRANCH_INSTRUCTIONS, CALL_INSTRUCTIONS]
          then resolveForAddress self addressingMode sourceOperand
          else if chadsemblyInstruction = ''OUTB''
          then resolveForBinary self addressingMode sourceOperand
          else resolveForValue self addressingMode sourceOperand)"

definition resolveDestinationOperand :: "int \<Rightarrow> int" where
  "resolveDestinationOperand destinationOperand = destinationOperand * - 1"

definition executeMachineOperation ::
  "VirtualMachine \<Rightarrow> int \<Rightarrow> operand_value \<Rightarrow> int \<Rightarrow> vm_stop + VirtualMachine" where
  "executeMachineOperation self machineOperation sourceOperand destinationOperand =
     (case map_of instructionMapping machineOperation of
        None \<Rightarrow> Inl (Raised KeyError)
      | Some operation \<Rightarrow>
          (case operation (machineOperations self) sourceOperand destinationOperand of
             Inl e \<Rightarrow> Inl e
           | Inr operations \<Rightarrow> Inr (self\<lparr>machineOperations := operations\<rparr>)))"

text \<open>A slice \<open>s[a : b]\<close> with bounds that are not negative; it never raises.\<close>

definition slice :: "string \<Rightarrow> int \<Rightarrow> int \<Rightarrow> string" where
  "slice s a b = take (nat b - nat a) (drop (nat a) s)"

definition executeInstruction :: "VirtualMachine \<Rightarrow> string \<Rightarrow> vm_stop + VirtualMachine" where
  "executeInstruction self chadsemblyInstruction =
     (case vm_get (configurationTable self) REGISTERS_CONFIGURATION_OPTION of
        Inl e \<Rightarrow> Inl e
      | Inr registers \<Rightarrow>
          (let pcAddress = (registers + PROGRAM_COUNTER_OFFSET) * - 1;
               format = instructionFormat self
           in case read_cell (vmPool self) pcAddress of
                Inl e \<Rightarrow> Inl e
              | Inr pc \<Rightarrow>
                  (let self1 = setPool self ((vmPool self)
                                 (pcAddress \<mapsto>
                                    signedInteger (pc + 1) (totalNumberOfInstructionBits format)));
                       offset1 = numberOfMachineOperationBits format;
                       offset2 = offset1 + numberOfAddressingModeBits format;
                       offset3 = offset2 + numberOfOperandBits format;
                       offset4 = offset3 + numberOfOperandBits format
                   in case lift_py (readUnsignedInteger (slice chadsemblyInstruction 0 offset1)) of
                        Inl e \<Rightarrow> Inl e
                      | Inr machineOperation \<Rightarrow>
                   (case lift_py (readUnsignedInteger
                                    (slice chadsemblyInstruction offset1 offset2)) of
                        Inl e \<Rightarrow> Inl e
                      | Inr addressingMode \<Rightarrow>
                   (case lift_py (readSignedInteger
                                    (slice chadsemblyInstruction offset2 offset3)) of
                        Inl e \<Rightarrow> Inl e
                      | Inr sourceOperand0 \<Rightarrow>
                   (case lift_py (readSignedInteger
                                    (slice chadsemblyInstruction offset3 offset4)) of
                        Inl e \<Rightarrow> Inl e
                      | Inr destinationOperand0 \<Rightarrow>
                   (case resolveSourceOperand self1 machineOperation addressingMode
                           sourceOperand0 of
                        Inl e \<Rightarrow> Inl e
                      | Inr sourceOperand \<Rightarrow>
                          executeMachineOperation self1 machineOperation sourceOperand
                            (resolveDestinationOperand destinationOperand0))))))))"

text \<open>The loop of \<open>run\<close>. The guard reads the Program Counter as a signed integer, the
  fetch reads it as an unsigned one. The loop may run for ever, so the model counts
  its rounds: \<open>None\<close> is a run that needs more rounds than it was given. A result on
  the right is the loop's own end, without \<open>sys.exit\<close>.\<close>

fun runLoop :: "nat \<Rightarrow> int \<Rightarrow> int \<Rightarrow> VirtualMachine \<Rightarrow> (vm_stop + VirtualMachine) option" where
  "runLoop 0 pcAddress numberOfMemoryAddresses self = None"
| "runLoop (Suc fuel) pcAddress numberOfMemoryAddresses self =
     (case read_cell (vmPool self) pcAddress of
        Inl e \<Rightarrow> Some (Inl e)
      | Inr signedCounter \<Rightarrow>
          if signedCounter < numberOfMemoryAddresses then
            (case pool_get (vmPool self) pcAddress of
               Inl e \<Rightarrow> Some (Inl e)
             | Inr counterCell \<Rightarrow>
                 (case lift_py (readUnsignedInteger counterCell) of
                    Inl e \<Rightarrow> Some (Inl e)
                  | Inr programCounter \<Rightarrow>
                      (case pool_get (vmPool self) programCounter of
                         Inl e \<Rightarrow> Some (Inl e)
                       | Inr instruction \<Rightarrow>
                           (case executeInstruction self instruction of
                              Inl e \<Rightarrow> Some (Inl e)
                            | Inr self1 \<Rightarrow>
                                runLoop fuel pcAddress numberOfMemoryAddresses self1))))
          else Some (Inr self))"

text \<open>\<open>run\<close>: the loader, the three values read from the configuration table before
  the loop (the clock only delays the rounds), and the loop. The prompt it prints is
  left out.\<close>

definition run :: "nat \<Rightarrow> VirtualMachine \<Rightarrow> (vm_stop + VirtualMachine) option" where
  "run fuel self0 =
     (case loader self0 of
        Inl e \<Rightarrow> Some (Inl e)
      | Inr self \<Rightarrow>
          (case vm_get (configurationTable self) REGISTERS_CONFIGURATION_OPTION of
             Inl e \<Rightarrow> Some (Inl e)
           | Inr registers \<Rightarrow>
               (case vm_get (configurationTable self) MEMORY_CONFIGURATION_OPTION of
                  Inl e \<Rightarrow> Some (Inl e)
                | Inr numberOfMemoryAddresses \<Rightarrow>
                    (case vm_get (configurationTable self) CLOCK_CONFIGURATION_OPTION of
                       Inl e \<Rightarrow> Some (Inl e)
                     | Inr clock \<Rightarrow>
                         runLoop fuel ((registers + PROGRAM_COUNTER_OFFSET) * - 1)
                           numberOfMemoryAddresses self))))"

text \<open>How a run ended, without the machine it ended in.\<close>

datatype run_end = OutOfFuel | Stopped vm_stop | LoopEnded

definition runEnd :: "(vm_stop + VirtualMachine) option \<Rightarrow> run_end" where
  "runEnd r = (case r of None \<Rightarrow> OutOfFuel | Some (Inl e) \<Rightarrow> Stopped e | Some (Inr vm) \<Rightarrow> LoopEnded)"

subsection \<open>lexer.py\<close>

record Lexer =
  sourceCode :: string
  commentPrefix :: char
  lexingErrors :: "error_message list"
  lexerPositionTracker :: Position

definition newLexer :: "string \<Rightarrow> string \<Rightarrow> py_error + Lexer" where
  "newLexer source prefix =
     (case prefix of
        [] \<Rightarrow> Inl IndexError
      | c # _ \<Rightarrow>
          Inr \<lparr>sourceCode = source, commentPrefix = c, lexingErrors = [],
               lexerPositionTracker = \<lparr>row = 1, column = 1\<rparr>\<rparr>)"

definition recordLexingError :: "Lexer \<Rightarrow> int \<Rightarrow> int \<Rightarrow> string \<Rightarrow> string \<Rightarrow> Lexer" where
  "recordLexingError self errorRow errorColumn typeOfError errorMessage =
     self\<lparr>lexingErrors :=
            lexingErrors self @ [ErrorAt typeOfError errorRow errorColumn errorMessage]\<rparr>"

definition advanceColumn :: "Lexer \<Rightarrow> int \<Rightarrow> Lexer" where
  "advanceColumn self n =
     self\<lparr>lexerPositionTracker :=
            (lexerPositionTracker self)\<lparr>column := column (lexerPositionTracker self) + n\<rparr>\<rparr>"

text \<open>\<open>__skipOverComment\<close> runs the loop of \<open>scanSubstring\<close> to the next line break:
  the index and the column move together.\<close>

definition skipOverComment :: "Lexer \<Rightarrow> nat \<Rightarrow> nat \<times> Lexer" where
  "skipOverComment self beginningIndexOfComment =
     (let scanned = scanSubstring (sourceCode self) LINE_BREAK_CHARACTERS beginningIndexOfComment
                      (column (lexerPositionTracker self))
      in (fst scanned,
          self\<lparr>lexerPositionTracker := (lexerPositionTracker self)\<lparr>column := snd scanned\<rparr>\<rparr>))"

definition generateEndToken :: "string \<Rightarrow> int \<Rightarrow> int \<Rightarrow> TypedToken" where
  "generateEndToken tokenSubstring tokenRow tokenColumn =
     mkTypedToken END tokenSubstring tokenRow tokenColumn"

definition generateBlockScopeToken :: "char \<Rightarrow> int \<Rightarrow> int \<Rightarrow> TypedToken" where
  "generateBlockScopeToken c tokenRow tokenColumn =
     (if c \<in> set LEFT_SCOPE_CHARACTERS
      then mkTypedToken LEFT_BRACE [c] tokenRow tokenColumn
      else mkTypedToken RIGHT_BRACE [c] tokenRow tokenColumn)"

definition generateInstructionSeperatorToken :: "string \<Rightarrow> int \<Rightarrow> int \<Rightarrow> TypedToken" where
  "generateInstructionSeperatorToken tokenSubstring tokenRow tokenColumn =
     mkTypedToken SEPERATOR tokenSubstring tokenRow tokenColumn"

definition generateAddressingModeToken :: "string \<Rightarrow> int \<Rightarrow> int \<Rightarrow> py_error + TypedToken" where
  "generateAddressingModeToken tokenSubstring tokenRow tokenColumn =
     (case dict_get ADDRESSING_MODES tokenSubstring of
        Inl e \<Rightarrow> Inl e
      | Inr symbol \<Rightarrow> Inr (mkTypedToken ADDRESSING_MODE symbol tokenRow tokenColumn))"

text \<open>The loop over the characters of a label or of a value: every character outside
  the allowed ones records an error at its own column.\<close>

fun checkCharacters ::
  "Lexer \<Rightarrow> string \<Rightarrow> string \<Rightarrow> string \<Rightarrow> int \<Rightarrow> int \<Rightarrow> string \<Rightarrow> Lexer" where
  "checkCharacters self allowed typeOfError messagePrefix tokenRow tokenColumnCopy [] = self"
| "checkCharacters self allowed typeOfError messagePrefix tokenRow tokenColumnCopy (c # cs) =
     checkCharacters
       (if c \<notin> set allowed
        then recordLexingError self tokenRow tokenColumnCopy typeOfError
               (messagePrefix @ [CHR 0x60, c, CHR 0x60])
        else self)
       allowed typeOfError messagePrefix tokenRow (tokenColumnCopy + 1) cs"

definition generateLabelToken :: "Lexer \<Rightarrow> string \<Rightarrow> int \<Rightarrow> int \<Rightarrow> py_error + (TypedToken \<times> Lexer)" where
  "generateLabelToken self tokenSubstring tokenRow tokenColumn =
     (case tokenSubstring of
        [] \<Rightarrow> Inl IndexError
      | c # _ \<Rightarrow>
          (let self1 = (if c \<notin> set BEGINNING_OF_LABEL_CHARACTERS
                        then recordLexingError self tokenRow tokenColumn ''Invalid Label Error''
                               (''Non-value character found '' @ [CHR 0x60, c, CHR 0x60])
                        else self);
               self2 = checkCharacters self1 LABEL_CHARACTERS ''Invalid Label Error''
                         ''Non-label character found '' tokenRow tokenColumn tokenSubstring
           in Inr (mkTypedToken LABEL tokenSubstring tokenRow tokenColumn, self2)))"

definition generateValueToken :: "Lexer \<Rightarrow> string \<Rightarrow> int \<Rightarrow> int \<Rightarrow> py_error + (TypedToken \<times> Lexer)" where
  "generateValueToken self tokenSubstring0 tokenRow tokenColumn =
     (case tokenSubstring0 of
        [] \<Rightarrow> Inl IndexError
      | c # rest \<Rightarrow>
          (let self1 = (if c \<notin> set BEGINNING_OF_VALUE_CHARACTERS
                        then recordLexingError self tokenRow tokenColumn ''Invalid Value Error''
                               (''Non-label character found '' @ [CHR 0x60, c, CHR 0x60])
                        else self);
               signed = (c \<in> set VALUE_SIGNS);
               valueTokenSign = (if signed then c else CHR ''+'');
               tokenSubstring = (if signed then rest else tokenSubstring0);
               self2 = (if tokenSubstring = []
                        then recordLexingError self1 tokenRow tokenColumn ''Invalid Value Error''
                               ''Empty value found, only the sign was specified''
                        else self1);
               self3 = checkCharacters self2 VALUE_CHARACTERS ''Invalid Value Error''
                         ''Non-value character found '' tokenRow tokenColumn tokenSubstring
           in Inr (mkTypedToken VALUE (valueTokenSign # tokenSubstring) tokenRow tokenColumn,
                   self3)))"

text \<open>Python indexing: an index from \<open>-len\<close> to \<open>len - 1\<close>, the negative ones counted
  from the end.\<close>

definition py_index :: "'a list \<Rightarrow> int \<Rightarrow> py_error + 'a" where
  "py_index xs i =
     (if 0 \<le> i \<and> i < int (length xs) then Inr (xs ! nat i)
      else if i < 0 \<and> - int (length xs) \<le> i then Inr (xs ! nat (int (length xs) + i))
      else Inl IndexError)"

function digitSuffixStart :: "string \<Rightarrow> int \<Rightarrow> py_error + int" where
  "digitSuffixStart tokenSubstring lowerSubstringIndex =
     (case py_index tokenSubstring lowerSubstringIndex of
        Inl e \<Rightarrow> Inl e
      | Inr c \<Rightarrow>
          if c \<in> set ''1234567890''
          then digitSuffixStart tokenSubstring (lowerSubstringIndex - 1)
          else Inr lowerSubstringIndex)"
  by pat_completeness auto
termination
  by (relation "measure (\<lambda>(s, i). nat (i + int (length s) + 1))")
     (auto simp: py_index_def Let_def split: if_splits)

declare digitSuffixStart.simps [simp del]

text \<open>A slice \<open>s[a : b]\<close> for integers \<open>a\<close> and \<open>b\<close> of any sign.\<close>

definition py_slice :: "'a list \<Rightarrow> int \<Rightarrow> int \<Rightarrow> 'a list" where
  "py_slice xs a b =
     (let n = int (length xs);
          a1 = (if a < 0 then max 0 (n + a) else min a n);
          b1 = (if b < 0 then max 0 (n + b) else min b n)
      in take (nat (b1 - a1)) (drop (nat a1) xs))"

definition determineTypeOfRegisterKeyword :: "string \<Rightarrow> py_error + string" where
  "determineTypeOfRegisterKeyword tokenSubstring =
     (let upperSubstringIndex = int (length tokenSubstring) in
      case digitSuffixStart tokenSubstring (upperSubstringIndex - 1) of
        Inl e \<Rightarrow> Inl e
      | Inr lower0 \<Rightarrow>
          (let lowerSubstringIndex = lower0 + 1;
               keywordSubstring = py_slice tokenSubstring 0 lowerSubstringIndex;
               integerSuffixSubstring =
                 py_slice tokenSubstring lowerSubstringIndex upperSubstringIndex
           in if map_of GENERAL_PURPOSE_REGISTER keywordSubstring \<noteq> None
                 \<and> integerSuffixSubstring \<noteq> []
              then Inr integerSuffixSubstring
              else Inr ''''))"

definition determineTokenType :: "string \<Rightarrow> token_type" where
  "determineTokenType tokenSubstring =
     (if map_of INSTRUCTION_SET tokenSubstring \<noteq> None then INSTRUCTION
      else if map_of SPECIAL_PURPOSE_REGISTERS tokenSubstring \<noteq> None then REGISTER
      else if map_of ADDRESSING_MODES tokenSubstring \<noteq> None then ADDRESSING_MODE
      else if map_of ASSEMBLY_DIRECTIVES tokenSubstring \<noteq> None then ASSEMBLY_DIRECTIVE
      else LABEL)"

definition getTokenSubstring :: "Lexer \<Rightarrow> nat \<Rightarrow> string" where
  "getTokenSubstring self lowerSubstringIndex =
     (let tokenTerminatingCharacters =
            WHITE_SPACE_CHARACTERS @ LINE_BREAK_CHARACTERS @ OPERAND_SEPERATOR_CHARACTERS @
            BLOCK_SCOPE_CHARACTERS @ ADDRESSING_MODE_CHARACTERS @ [commentPrefix self];
          upperSubstringIndex =
            fst (scanSubstring (sourceCode self) tokenTerminatingCharacters lowerSubstringIndex 0)
      in convertToCasing
           (take (upperSubstringIndex - lowerSubstringIndex)
              (drop lowerSubstringIndex (sourceCode self))))"

definition processTokenSubstring ::
  "Lexer \<Rightarrow> string \<Rightarrow> TypedToken list \<Rightarrow> int \<Rightarrow> int \<Rightarrow> py_error + (TypedToken list \<times> Lexer)" where
  "processTokenSubstring self tokenSubstring tokenStream tokenRow tokenColumn =
     (case tokenSubstring of
        [] \<Rightarrow> Inl IndexError
      | c # _ \<Rightarrow>
          if c \<in> set BEGINNING_OF_VALUE_CHARACTERS then
            (case generateValueToken self tokenSubstring (row (lexerPositionTracker self))
                    (column (lexerPositionTracker self)) of
               Inl e \<Rightarrow> Inl e
             | Inr (token, self1) \<Rightarrow> Inr (tokenStream @ [token], self1))
          else
            (case determineTypeOfRegisterKeyword tokenSubstring of
               Inl e \<Rightarrow> Inl e
             | Inr isGeneralPurposeRegister \<Rightarrow>
                 if isGeneralPurposeRegister \<noteq> [] then
                   Inr (tokenStream @
                          [mkTypedToken REGISTER isGeneralPurposeRegister tokenRow tokenColumn],
                        self)
                 else
                   (let typeOfToken = determineTokenType tokenSubstring in
                    if typeOfToken = ADDRESSING_MODE then
                      (case dict_get ADDRESSING_MODES tokenSubstring of
                         Inl e \<Rightarrow> Inl e
                       | Inr symbol \<Rightarrow>
                           Inr (tokenStream @
                                  [mkTypedToken typeOfToken symbol tokenRow tokenColumn],
                                self))
                    else if typeOfToken = LABEL then
                      (case generateLabelToken self tokenSubstring tokenRow tokenColumn of
                         Inl e \<Rightarrow> Inl e
                       | Inr (token, self1) \<Rightarrow> Inr (tokenStream @ [token], self1))
                    else
                      Inr (tokenStream @
                             [mkTypedToken typeOfToken tokenSubstring tokenRow tokenColumn],
                           self))))"

text \<open>The loop of \<open>__tokeniseSourceCode\<close>. A comment prefix that is itself a line break
  would keep the index where it is, so the loop is a partial function: \<open>None\<close> is a
  loop that never ends.\<close>

partial_function (option) tokeniseLoop ::
  "Lexer \<Rightarrow> nat \<Rightarrow> TypedToken list \<Rightarrow> (py_error + (TypedToken list \<times> Lexer)) option" where
  "tokeniseLoop self currentIndex generatedStreamOfTokens =
     (if currentIndex < length (sourceCode self) then
        (let currentCharacter = sourceCode self ! currentIndex;
             tokenRow = row (lexerPositionTracker self);
             tokenColumn = column (lexerPositionTracker self)
         in if currentCharacter = commentPrefix self then
              tokeniseLoop (snd (skipOverComment self currentIndex))
                (fst (skipOverComment self currentIndex)) generatedStreamOfTokens
            else if currentCharacter \<in> set WHITE_SPACE_CHARACTERS then
              tokeniseLoop (advanceColumn self 1) (currentIndex + 1) generatedStreamOfTokens
            else if currentCharacter \<in> set LINE_BREAK_CHARACTERS then
              tokeniseLoop
                (self\<lparr>lexerPositionTracker := \<lparr>row = tokenRow + 1, column = 1\<rparr>\<rparr>)
                (currentIndex + 1)
                (if generatedStreamOfTokens \<noteq> []
                    \<and> tokenType (last generatedStreamOfTokens) \<noteq> END
                 then generatedStreamOfTokens @
                        [generateEndToken LINE_BREAK_SYMBOL tokenRow tokenColumn]
                 else generatedStreamOfTokens)
            else if currentCharacter \<in> set BLOCK_SCOPE_CHARACTERS then
              tokeniseLoop (advanceColumn self 1) (currentIndex + 1)
                (generatedStreamOfTokens @
                   [generateBlockScopeToken currentCharacter tokenRow tokenColumn])
            else if currentCharacter \<in> set OPERAND_SEPERATOR_CHARACTERS then
              tokeniseLoop (advanceColumn self 1) (currentIndex + 1)
                (generatedStreamOfTokens @
                   [generateInstructionSeperatorToken INSTRUCTION_SEPERATOR_SYMBOL
                      tokenRow tokenColumn])
            else if currentCharacter \<in> set ADDRESSING_MODE_CHARACTERS then
              (case generateAddressingModeToken [currentCharacter] tokenRow tokenColumn of
                 Inl e \<Rightarrow> Some (Inl e)
               | Inr token \<Rightarrow>
                   tokeniseLoop (advanceColumn self 1) (currentIndex + 1)
                     (generatedStreamOfTokens @ [token]))
            else
              (let tokenSubstring = getTokenSubstring self currentIndex;
                   tokenSubstringLength = length tokenSubstring
               in case processTokenSubstring self tokenSubstring generatedStreamOfTokens
                         tokenRow tokenColumn of
                    Inl e \<Rightarrow> Some (Inl e)
                  | Inr (tokens, self1) \<Rightarrow>
                      tokeniseLoop (advanceColumn self1 (int tokenSubstringLength))
                        (currentIndex + tokenSubstringLength) tokens))
      else Some (Inr (generatedStreamOfTokens, self)))"

declare tokeniseLoop.simps [code]

text \<open>After the loop the last token is read without a look at the length of the
  stream: \<open>generatedStreamOfTokens[-1]\<close> raises IndexError on the empty stream.\<close>

definition tokeniseSourceCode :: "Lexer \<Rightarrow> (py_error + (TypedToken list \<times> Lexer)) option" where
  "tokeniseSourceCode self =
     (case tokeniseLoop self 0 [] of
        None \<Rightarrow> None
      | Some (Inl e) \<Rightarrow> Some (Inl e)
      | Some (Inr (generatedStreamOfTokens, self1)) \<Rightarrow>
          if length (sourceCode self1) \<noteq> 0 then
            (case py_index generatedStreamOfTokens (- 1) of
               Inl e \<Rightarrow> Some (Inl e)
             | Inr lastToken \<Rightarrow>
                 if tokenType lastToken \<noteq> END
                 then Some (Inr (generatedStreamOfTokens @
                                   [generateEndToken ''/'' (row (lexerPositionTracker self1))
                                      (column (lexerPositionTracker self1))],
                                 self1))
                 else Some (Inr (generatedStreamOfTokens, self1)))
          else Some (Inr (generatedStreamOfTokens, self1)))"

text \<open>\<open>lex\<close> without its exit on recorded errors: the token stream and the errors.\<close>

definition lex :: "Lexer \<Rightarrow> (py_error + (TypedToken list \<times> error_message list)) option" where
  "lex self =
     (if sourceCode self \<noteq> [] then
        (case tokeniseSourceCode self of
           None \<Rightarrow> None
         | Some (Inl e) \<Rightarrow> Some (Inl e)
         | Some (Inr (tokenStream, self1)) \<Rightarrow> Some (Inr (tokenStream, lexingErrors self1)))
      else Some (Inr ([], [])))"

subsection \<open>symboltableentry.py, symboltable.py, instructionpool.py\<close>

definition BRANCH_LABEL :: int where "BRANCH_LABEL = 1"
definition VARIABLE_LABEL :: int where "VARIABLE_LABEL = 2"
definition PROCEDURE_LABEL :: int where "PROCEDURE_LABEL = 3"

text \<open>The value of a label is an integer in every place but one: a variable without
  an initial value gets the text \<open>0\<close>, which the code generator reads back with
  \<open>int\<close>. The model stores the integer.\<close>

record SymbolTableEntry =
  labelIdentifier :: string
  labelValue :: int
  labelType :: int

text \<open>The symbol table is a dictionary from the label in upper case to its entry;
  \<open>get\<close> returns \<open>None\<close> where the source returns \<open>Defaults.NULL\<close>.\<close>

type_synonym SymbolTable = "(string \<times> SymbolTableEntry) list"

definition symbolTableInsert :: "SymbolTable \<Rightarrow> string \<Rightarrow> int \<Rightarrow> int \<Rightarrow> SymbolTable" where
  "symbolTableInsert table identifier val type =
     AList.update (convertToCasing identifier)
       \<lparr>labelIdentifier = identifier, labelValue = val, labelType = type\<rparr> table"

definition symbolTableGet :: "SymbolTable \<Rightarrow> string \<Rightarrow> SymbolTableEntry option" where
  "symbolTableGet table targetLabelIdentifier = map_of table (convertToCasing targetLabelIdentifier)"

definition getLabels :: "SymbolTable \<Rightarrow> string list" where
  "getLabels table = map fst table"

record InstructionPool =
  poolIdentifier :: string
  tokenStream :: "TypedToken list"
  symbolTable :: SymbolTable

subsection \<open>parser.py\<close>

record Parser =
  streamOfTokens :: "TypedToken list"
  parsingErrors :: "error_message list"
  previousBlockScopeToken :: "TypedToken option"
  instructionPools :: "(string \<times> InstructionPool) list"
  globalInstructionPool :: InstructionPool

definition newParser :: "TypedToken list \<Rightarrow> Parser" where
  "newParser tokens =
     \<lparr>streamOfTokens = tokens, parsingErrors = [], previousBlockScopeToken = None,
      instructionPools = [],
      globalInstructionPool =
        \<lparr>poolIdentifier = GLOBAL_INSTRUCTION_POOL_IDENTIFIER, tokenStream = [],
         symbolTable = []\<rparr>\<rparr>"

definition INTEGER_TO_TOKEN :: "token_type \<Rightarrow> string" where
  "INTEGER_TO_TOKEN t =
     (case t of
        END \<Rightarrow> ''End Of Statement'' | INSTRUCTION \<Rightarrow> ''Instruction''
      | ADDRESSING_MODE \<Rightarrow> ''Addressing Mode'' | VALUE \<Rightarrow> ''Value''
      | REGISTER \<Rightarrow> ''Register'' | LABEL \<Rightarrow> ''Label''
      | SEPERATOR \<Rightarrow> ''Instruction Seperator'' | RIGHT_BRACE \<Rightarrow> ''Right Curly Brace''
      | LEFT_BRACE \<Rightarrow> ''Left Curly Brace'' | ASSEMBLY_DIRECTIVE \<Rightarrow> ''Assembly Directive''
      | INVALID \<Rightarrow> ''Invalid Token'')"

definition generateParsingErrorMessageFromContext :: "TypedToken \<Rightarrow> TypedToken \<Rightarrow> string" where
  "generateParsingErrorMessageFromContext firstToken secondToken =
     (if tokenType firstToken = END
      then ''Statement cannot begin with '' @ INTEGER_TO_TOKEN (tokenType secondToken)
      else INTEGER_TO_TOKEN (tokenType secondToken) @ '' - '' @ [CHR 0x60] @ tokenValue secondToken
           @ [CHR 0x60] @ '' was found after '' @ INTEGER_TO_TOKEN (tokenType firstToken)
           @ '' - '' @ [CHR 0x60] @ tokenValue firstToken @ [CHR 0x60])"

definition recordParsingError :: "Parser \<Rightarrow> TypedToken \<Rightarrow> TypedToken \<Rightarrow> Parser" where
  "recordParsingError self firstToken secondToken =
     self\<lparr>parsingErrors := parsingErrors self @
            [ErrorAt ''Invalid Syntax Error: Unexpected token'' (row secondToken)
               (column secondToken)
               (generateParsingErrorMessageFromContext firstToken secondToken)]\<rparr>"

text \<open>The table of the tokens that may follow a token. The source has no case for an
  invalid token and returns \<open>None\<close> for it, on which the membership test of the caller
  raises TypeError.\<close>

definition generateNextValidToken :: "TypedToken \<Rightarrow> py_error + token_type list" where
  "generateNextValidToken currentToken =
     (case tokenType currentToken of
        END \<Rightarrow> Inr [END, INSTRUCTION, LABEL, RIGHT_BRACE, LEFT_BRACE]
      | INSTRUCTION \<Rightarrow> Inr [END, ADDRESSING_MODE, VALUE, REGISTER, LABEL, RIGHT_BRACE]
      | ADDRESSING_MODE \<Rightarrow> Inr [VALUE, REGISTER, LABEL]
      | VALUE \<Rightarrow> Inr [END, SEPERATOR, RIGHT_BRACE, LEFT_BRACE]
      | REGISTER \<Rightarrow> Inr [END, SEPERATOR, RIGHT_BRACE, LEFT_BRACE]
      | LABEL \<Rightarrow> Inr [END, SEPERATOR, INSTRUCTION, RIGHT_BRACE, LEFT_BRACE, ASSEMBLY_DIRECTIVE]
      | SEPERATOR \<Rightarrow> Inr [ADDRESSING_MODE, VALUE, REGISTER, LABEL]
      | RIGHT_BRACE \<Rightarrow> Inr [END]
      | LEFT_BRACE \<Rightarrow> Inr [END]
      | ASSEMBLY_DIRECTIVE \<Rightarrow> Inr [END, VALUE]
      | INVALID \<Rightarrow> Inl TypeError)"

definition validateBlockScopeToken :: "Parser \<Rightarrow> TypedToken \<Rightarrow> Parser" where
  "validateBlockScopeToken self currentToken =
     (if tokenType currentToken \<noteq> LEFT_BRACE \<and> tokenType currentToken \<noteq> RIGHT_BRACE then self
      else if tokenType currentToken = LEFT_BRACE then
        (if previousBlockScopeToken self = None
         then self\<lparr>previousBlockScopeToken := Some currentToken\<rparr>
         else self\<lparr>parsingErrors := parsingErrors self @
                [ErrorAt ''Invalid Syntax Error'' (row currentToken) (column currentToken)
                   ''Cannot open new block scope until previous one was closed'']\<rparr>)
      else
        (if previousBlockScopeToken self = None
         then self\<lparr>parsingErrors := parsingErrors self @
                [ErrorAt ''Invalid Syntax Error'' (row currentToken) (column currentToken)
                   ''Attempting to close a block scope when no block scope was opened to begin with'']\<rparr>
         else self\<lparr>previousBlockScopeToken := None\<rparr>))"

text \<open>In the loops over the fixed stream of the parser the index is kept as the rest
  of the stream from the index on: an empty rest is an index past the end.\<close>

fun preparseLoop :: "Parser \<Rightarrow> TypedToken \<Rightarrow> TypedToken list \<Rightarrow> py_error + Parser" where
  "preparseLoop self previousToken [] = Inr self"
| "preparseLoop self previousToken (currentToken # rest) =
     (case generateNextValidToken previousToken of
        Inl e \<Rightarrow> Inl e
      | Inr nextValidTokens \<Rightarrow>
          (let self1 = validateBlockScopeToken self currentToken;
               self2 = (if tokenType currentToken \<notin> set nextValidTokens
                        then recordParsingError self1 previousToken currentToken
                        else self1)
           in preparseLoop self2 currentToken rest))"

definition preparse :: "Parser \<Rightarrow> py_error + Parser" where
  "preparse self =
     (case preparseLoop self (mkTypedToken END ''/'' (- 1) (- 1)) (streamOfTokens self) of
        Inl e \<Rightarrow> Inl e
      | Inr self1 \<Rightarrow>
          (case previousBlockScopeToken self1 of
             None \<Rightarrow> Inr self1
           | Some opened \<Rightarrow>
               Inr (self1\<lparr>parsingErrors := parsingErrors self1 @
                      [ErrorAt ''Invalid Syntax Error'' (row opened) (column opened)
                         ''Block scope was opened but never closed'']\<rparr>)))"

text \<open>\<open>list.pop()\<close>: the last element and the list without it.\<close>

definition list_pop :: "'a list \<Rightarrow> py_error + ('a \<times> 'a list)" where
  "list_pop xs = (if xs = [] then Inl IndexError else Inr (last xs, butlast xs))"

text \<open>The loop of \<open>__getProcedureTokens\<close>: the tokens up to the next right brace and
  the rest of the stream after the brace. A stream that ends before a right brace is
  an index past the end.\<close>

fun collectProcedureTokens ::
  "TypedToken list \<Rightarrow> TypedToken list \<Rightarrow> py_error + (TypedToken list \<times> TypedToken list)" where
  "collectProcedureTokens procedureTokens [] = Inl IndexError"
| "collectProcedureTokens procedureTokens (currentToken # rest) =
     (if tokenType currentToken \<noteq> RIGHT_BRACE
      then collectProcedureTokens (procedureTokens @ [currentToken]) rest
      else Inr (procedureTokens, rest))"

text \<open>The assignment to \<open>self.__instructionPools[...]\<close> stores the new pool under the
  identifier, whether or not the dictionary has the identifier already.\<close>

definition getProcedureTokens ::
  "Parser \<Rightarrow> TypedToken list \<Rightarrow> TypedToken \<Rightarrow> py_error + (Parser \<times> TypedToken list)" where
  "getProcedureTokens self fromBeginningIndex procedureLabelToken =
     (case collectProcedureTokens [] fromBeginningIndex of
        Inl e \<Rightarrow> Inl e
      | Inr (procedureTokens, afterRightBrace) \<Rightarrow>
          Inr (self\<lparr>instructionPools :=
                      AList.update (tokenValue procedureLabelToken)
                        \<lparr>poolIdentifier = tokenValue procedureLabelToken,
                         tokenStream = procedureTokens, symbolTable = []\<rparr>
                        (instructionPools self)\<rparr>,
               afterRightBrace))"

lemma collectProcedureTokens_length:
  "collectProcedureTokens acc ts = Inr (body, rest) \<Longrightarrow> length rest < length ts"
  by (induction acc ts rule: collectProcedureTokens.induct) (auto split: if_splits)

lemma getProcedureTokens_length:
  "getProcedureTokens self ts label = Inr (self1, rest) \<Longrightarrow> length rest < length ts"
  by (auto simp: getProcedureTokens_def split: sum.splits dest: collectProcedureTokens_length)

definition setGlobalTokens :: "Parser \<Rightarrow> TypedToken list \<Rightarrow> Parser" where
  "setGlobalTokens self tokens =
     self\<lparr>globalInstructionPool := (globalInstructionPool self)\<lparr>tokenStream := tokens\<rparr>\<rparr>"

text \<open>The popping of the procedure label in \<open>__getInstructionPools\<close>: the last token of
  the global pool, or the one before it when the last is an END.\<close>

definition popProcedureLabel :: "Parser \<Rightarrow> py_error + (TypedToken \<times> Parser)" where
  "popProcedureLabel self =
     (case list_pop (tokenStream (globalInstructionPool self)) of
        Inl e \<Rightarrow> Inl e
      | Inr (poppedToken, tokens1) \<Rightarrow>
          if tokenType poppedToken = END then
            (case list_pop tokens1 of
               Inl e \<Rightarrow> Inl e
             | Inr (poppedToken2, tokens2) \<Rightarrow> Inr (poppedToken2, setGlobalTokens self tokens2))
          else Inr (poppedToken, setGlobalTokens self tokens1))"

text \<open>The loop of \<open>__getInstructionPools\<close>. At a left brace the procedure starts two
  tokens on (\<open>currentIndex + 2\<close>), and the loop goes on two tokens after the right
  brace (the index after it, plus the increment at the end of the round).\<close>

function getInstructionPoolsLoop :: "Parser \<Rightarrow> TypedToken list \<Rightarrow> py_error + Parser" where
  "getInstructionPoolsLoop self [] = Inr self"
| "getInstructionPoolsLoop self (currentToken # rest) =
     (if tokenType currentToken = LEFT_BRACE then
        (case popProcedureLabel self of
           Inl e \<Rightarrow> Inl e
         | Inr (poppedToken, self1) \<Rightarrow>
             (case getProcedureTokens self1 (drop 1 rest) poppedToken of
                Inl e \<Rightarrow> Inl e
              | Inr (self2, afterRightBrace) \<Rightarrow>
                  getInstructionPoolsLoop self2 (drop 1 afterRightBrace)))
      else
        getInstructionPoolsLoop
          (setGlobalTokens self (tokenStream (globalInstructionPool self) @ [currentToken]))
          rest)"
  by pat_completeness auto
termination
  by (relation "measure (\<lambda>(s, ts). length ts)")
     (auto dest!: getProcedureTokens_length)

definition getInstructionPools :: "Parser \<Rightarrow> py_error + Parser" where
  "getInstructionPools self = getInstructionPoolsLoop self (streamOfTokens self)"

text \<open>\<open>__parseLabel\<close>, on a pool and the list of errors.\<close>

definition parseLabel ::
  "error_message list \<Rightarrow> TypedToken \<Rightarrow> InstructionPool \<Rightarrow> token_type
     \<Rightarrow> InstructionPool \<times> error_message list" where
  "parseLabel errors labelToken instructionPool labelContext =
     (case symbolTableGet (symbolTable instructionPool) (tokenValue labelToken) of
        None \<Rightarrow>
          (instructionPool\<lparr>symbolTable :=
             symbolTableInsert (symbolTable instructionPool) (tokenValue labelToken) (- 1) (- 1)\<rparr>,
           errors)
      | Some labelSymbol \<Rightarrow>
          (instructionPool,
           if labelContext = INSTRUCTION then
             (if labelType labelSymbol = BRANCH_LABEL then
                errors @ [ErrorAt ''Branch Label Error'' (row labelToken) (column labelToken)
                            ''Duplicate branch label found'']
              else if labelType labelSymbol = VARIABLE_LABEL then
                errors @ [ErrorAt ''Branch Label Error'' (row labelToken) (column labelToken)
                            ''Attempting to redeclare a variable label to a branch label'']
              else if labelType labelSymbol = PROCEDURE_LABEL then
                errors @ [ErrorText ''CANNOT REDECLARE PROCEDURE LABEL'']
              else errors)
           else if labelContext = ASSEMBLY_DIRECTIVE then
             (if labelType labelSymbol = BRANCH_LABEL then
                errors @ [ErrorAt ''Variable Label Error'' (row labelToken) (column labelToken)
                            ''Attempting to redeclare a branch label to a variable label'']
              else if labelType labelSymbol = PROCEDURE_LABEL then
                errors @ [ErrorAt ''Variable Label Error'' (row labelToken) (column labelToken)
                            ''Attempting to redeclare a procedure label to a variable label'']
              else errors)
           else errors))"

text \<open>\<open>list.pop(i)\<close> and the loop of \<open>__removeVariable\<close>, which pops at one index up to
  the next END.\<close>

definition pop_at :: "nat \<Rightarrow> 'a list \<Rightarrow> 'a list" where
  "pop_at i xs = take i xs @ drop (Suc i) xs"

function removeVariable :: "nat \<Rightarrow> TypedToken list \<Rightarrow> py_error + TypedToken list" where
  "removeVariable beginningIndex tokens =
     (if beginningIndex < length tokens then
        (if tokenType (tokens ! beginningIndex) \<noteq> END
         then removeVariable beginningIndex (pop_at beginningIndex tokens)
         else Inr tokens)
      else Inl IndexError)"
  by pat_completeness auto
termination
  by (relation "measure (\<lambda>(i, ts). length ts)") (auto simp: pop_at_def)

declare removeVariable.simps [simp del]

lemma removeVariable_length:
  "removeVariable i ts = Inr ts1 \<Longrightarrow> length ts1 \<le> length ts \<and> i < length ts1"
proof (induction i ts rule: removeVariable.induct)
  case (1 i ts)
  show ?case
  proof (cases "i < length ts \<and> tokenType (ts ! i) \<noteq> END")
    case True
    then have "removeVariable i (pop_at i ts) = Inr ts1"
      using "1.prems" by (subst (asm) removeVariable.simps) simp
    with "1.IH" True have "length ts1 \<le> length (pop_at i ts) \<and> i < length ts1" by simp
    moreover have "length (pop_at i ts) \<le> length ts" by (simp add: pop_at_def)
    ultimately show ?thesis by linarith
  next
    case False
    with "1.prems" show ?thesis
      by (subst (asm) removeVariable.simps) (auto split: if_splits)
  qed
qed

text \<open>The entry that \<open>get\<close> returns is the object in the table: setting its fields
  changes the table in place. (On \<open>Defaults.NULL\<close>, a class, the assignment would set
  an attribute of the class and leave the table as it is; \<open>__parseLabel\<close> has inserted
  the label before, so this does not happen.)\<close>

definition setLabel :: "InstructionPool \<Rightarrow> string \<Rightarrow> int \<Rightarrow> int \<Rightarrow> InstructionPool" where
  "setLabel instructionPool identifier type val =
     (case symbolTableGet (symbolTable instructionPool) identifier of
        None \<Rightarrow> instructionPool
      | Some labelSymbol \<Rightarrow>
          instructionPool\<lparr>symbolTable :=
            AList.update (convertToCasing identifier)
              (labelSymbol\<lparr>labelType := type, labelValue := val\<rparr>)
              (symbolTable instructionPool)\<rparr>)"

definition updateSymbolTableFromLabel ::
  "error_message list \<Rightarrow> nat \<Rightarrow> InstructionPool \<Rightarrow> int
     \<Rightarrow> py_error + (InstructionPool \<times> error_message list)" where
  "updateSymbolTableFromLabel errors currentIndex instructionPool indexedInstructionCount =
     (case py_index (tokenStream instructionPool) (int currentIndex + 1) of
        Inl e \<Rightarrow> Inl e
      | Inr tokenAfter \<Rightarrow>
          if tokenType tokenAfter = ASSEMBLY_DIRECTIVE \<or> tokenType tokenAfter = INSTRUCTION then
            (let labelToken = tokenStream instructionPool ! currentIndex;
                 parsed = parseLabel errors labelToken instructionPool (tokenType tokenAfter);
                 pool1 = fst parsed;
                 errors1 = snd parsed
             in if tokenType tokenAfter = ASSEMBLY_DIRECTIVE then
                  (case py_index (tokenStream pool1) (int currentIndex + 2) of
                     Inl e \<Rightarrow> Inl e
                   | Inr valueToken \<Rightarrow>
                       (case (if tokenType valueToken = VALUE
                              then int_base10 (tokenValue valueToken)
                              else int_base10 DEFAULT_VARIABLE_VALUE) of
                          Inl e \<Rightarrow> Inl e
                        | Inr val \<Rightarrow>
                            (let pool2 = setLabel pool1 (tokenValue labelToken) VARIABLE_LABEL val
                             in case removeVariable currentIndex (tokenStream pool2) of
                                  Inl e \<Rightarrow> Inl e
                                | Inr tokens \<Rightarrow>
                                    Inr (pool2\<lparr>tokenStream := tokens\<rparr>, errors1))))
                else
                  Inr (setLabel pool1 (tokenValue labelToken) BRANCH_LABEL
                         indexedInstructionCount, errors1))
          else Inr (instructionPool, errors))"

lemma updateSymbolTableFromLabel_length:
  assumes "updateSymbolTableFromLabel errors i pool n = Inr (pool1, errors1)"
  shows "length (tokenStream pool1) \<le> length (tokenStream pool)"
  using assms
  by (auto simp: updateSymbolTableFromLabel_def Let_def parseLabel_def setLabel_def
      split: sum.splits if_splits option.splits dest!: removeVariable_length)

text \<open>The loop of \<open>__updateInstructionPoolSymbolTable\<close>: a label updates the symbol
  table, an END advances the count that becomes the value of a branch label.\<close>

function updateInstructionPoolSymbolTableLoop ::
  "error_message list \<Rightarrow> int \<Rightarrow> nat \<Rightarrow> InstructionPool
     \<Rightarrow> py_error + (InstructionPool \<times> error_message list)" where
  "updateInstructionPoolSymbolTableLoop errors indexedInstructionCount currentIndex instructionPool =
     (if currentIndex < length (tokenStream instructionPool) then
        (if tokenType (tokenStream instructionPool ! currentIndex) = LABEL then
           (case updateSymbolTableFromLabel errors currentIndex instructionPool
                   indexedInstructionCount of
              Inl e \<Rightarrow> Inl e
            | Inr (pool1, errors1) \<Rightarrow>
                updateInstructionPoolSymbolTableLoop errors1 indexedInstructionCount
                  (currentIndex + 1) pool1)
         else if tokenType (tokenStream instructionPool ! currentIndex) = END then
           updateInstructionPoolSymbolTableLoop errors (indexedInstructionCount + 1)
             (currentIndex + 1) instructionPool
         else
           updateInstructionPoolSymbolTableLoop errors indexedInstructionCount
             (currentIndex + 1) instructionPool)
      else Inr (instructionPool, errors))"
  by pat_completeness auto
termination
  by (relation "measure (\<lambda>(e, n, i, p). Suc (length (tokenStream p)) - i)")
     (auto dest!: updateSymbolTableFromLabel_length)

declare updateInstructionPoolSymbolTableLoop.simps [simp del]

definition updateInstructionPoolSymbolTable ::
  "error_message list \<Rightarrow> InstructionPool \<Rightarrow> py_error + (InstructionPool \<times> error_message list)" where
  "updateInstructionPoolSymbolTable errors instructionPool =
     updateInstructionPoolSymbolTableLoop errors 0 0 instructionPool"

text \<open>\<open>__updateSymbolTables\<close>: the procedure labels go into the global symbol table, then
  the global pool and every procedure pool are classified, in the order of the keys.\<close>

fun insertProcedureLabels :: "SymbolTable \<Rightarrow> string list \<Rightarrow> SymbolTable" where
  "insertProcedureLabels table [] = table"
| "insertProcedureLabels table (identifier # identifiers) =
     insertProcedureLabels (symbolTableInsert table identifier (- 1) PROCEDURE_LABEL) identifiers"

fun updatePools :: "Parser \<Rightarrow> string list \<Rightarrow> py_error + Parser" where
  "updatePools self [] = Inr self"
| "updatePools self (identifier # identifiers) =
     (case dict_get (instructionPools self) identifier of
        Inl e \<Rightarrow> Inl e
      | Inr pool \<Rightarrow>
          (case updateInstructionPoolSymbolTable (parsingErrors self) pool of
             Inl e \<Rightarrow> Inl e
           | Inr (pool1, errors1) \<Rightarrow>
               updatePools
                 (self\<lparr>instructionPools := AList.update identifier pool1 (instructionPools self),
                       parsingErrors := errors1\<rparr>)
                 identifiers))"

definition updateSymbolTables :: "Parser \<Rightarrow> py_error + Parser" where
  "updateSymbolTables self =
     (let identifiers = map fst (instructionPools self);
          global1 = (globalInstructionPool self)
                      \<lparr>symbolTable :=
                         insertProcedureLabels (symbolTable (globalInstructionPool self))
                           identifiers\<rparr>
      in case updateInstructionPoolSymbolTable (parsingErrors self) global1 of
           Inl e \<Rightarrow> Inl e
         | Inr (global2, errors1) \<Rightarrow>
             updatePools (self\<lparr>globalInstructionPool := global2, parsingErrors := errors1\<rparr>)
               identifiers)"

text \<open>\<open>parse\<close>. \<open>__getParsingErrors\<close> prints the errors and leaves the program when
  there is one: a result \<open>Inr (Inl errors)\<close>. Otherwise the pools are returned.\<close>

definition parse ::
  "Parser \<Rightarrow> py_error + (error_message list + ((string \<times> InstructionPool) list \<times> InstructionPool))" where
  "parse self =
     (case preparse self of
        Inl e \<Rightarrow> Inl e
      | Inr self1 \<Rightarrow>
          if parsingErrors self1 \<noteq> [] then Inr (Inl (parsingErrors self1))
          else
            (case getInstructionPools (self1\<lparr>parsingErrors := []\<rparr>) of
               Inl e \<Rightarrow> Inl e
             | Inr self2 \<Rightarrow>
                 (case updateSymbolTables self2 of
                    Inl e \<Rightarrow> Inl e
                  | Inr self3 \<Rightarrow>
                      if parsingErrors self3 \<noteq> [] then Inr (Inl (parsingErrors self3))
                      else Inr (Inr (instructionPools self3, globalInstructionPool self3)))))"

subsection \<open>operand.py, semanticanalyser.py\<close>

record Operand =
  addressingMode :: TypedToken
  operandValue :: TypedToken

text \<open>The analyser holds the pools of the parser and its list of errors. A pool that a
  method gets as \<open>instructionPool\<close> is one of the pools of the analyser, and the methods
  change its token stream only: the model passes the pool in and out, and reads the
  symbol table of the global pool from the analyser, which no method changes.\<close>

record SemanticAnalyser =
  analyserInstructionPools :: "(string \<times> InstructionPool) list"
  analyserGlobalInstructionPool :: InstructionPool
  semanticAnalyserErrors :: "error_message list"

definition newSemanticAnalyser ::
  "(string \<times> InstructionPool) list \<Rightarrow> InstructionPool \<Rightarrow> SemanticAnalyser" where
  "newSemanticAnalyser pools globalPool =
     \<lparr>analyserInstructionPools = pools, analyserGlobalInstructionPool = globalPool,
      semanticAnalyserErrors = []\<rparr>"

definition recordSemanticAnalysisError ::
  "SemanticAnalyser \<Rightarrow> int \<Rightarrow> int \<Rightarrow> string \<Rightarrow> string \<Rightarrow> SemanticAnalyser" where
  "recordSemanticAnalysisError self errorRow errorColumn typeOfError errorMessage =
     self\<lparr>semanticAnalyserErrors :=
            semanticAnalyserErrors self @ [ErrorAt typeOfError errorRow errorColumn errorMessage]\<rparr>"

fun countNumberOfOperandsLoop :: "int \<Rightarrow> TypedToken list \<Rightarrow> py_error + int" where
  "countNumberOfOperandsLoop numberOfOperands [] = Inl IndexError"
| "countNumberOfOperandsLoop numberOfOperands (token # rest) =
     (if tokenType token \<noteq> END then
        countNumberOfOperandsLoop
          (if tokenType token = VALUE \<or> tokenType token = REGISTER \<or> tokenType token = LABEL
           then numberOfOperands + 1 else numberOfOperands)
          rest
      else Inr numberOfOperands)"

definition countNumberOfOperands :: "nat \<Rightarrow> InstructionPool \<Rightarrow> py_error + int" where
  "countNumberOfOperands beginningOfOperands instructionPool =
     countNumberOfOperandsLoop 0 (drop beginningOfOperands (tokenStream instructionPool))"

text \<open>\<open>list.insert(i, x)\<close> for an index from 0 to the length of the list.\<close>

definition list_insert :: "nat \<Rightarrow> 'a \<Rightarrow> 'a list \<Rightarrow> 'a list" where
  "list_insert i x xs = take i xs @ x # drop i xs"

text \<open>The last statement of \<open>__getOperand\<close>: the operand of the two tokens at an index.\<close>

definition operandAt :: "InstructionPool \<Rightarrow> nat \<Rightarrow> py_error + (Operand \<times> InstructionPool)" where
  "operandAt instructionPool i =
     (case py_index (tokenStream instructionPool) (int i) of
        Inl e \<Rightarrow> Inl e
      | Inr modeToken \<Rightarrow>
          (case py_index (tokenStream instructionPool) (int i + 1) of
             Inl e \<Rightarrow> Inl e
           | Inr valueToken \<Rightarrow>
               Inr (\<lparr>addressingMode = modeToken, operandValue = valueToken\<rparr>, instructionPool)))"

lemma py_index_Inr_less: "py_index xs (int i) = Inr x \<Longrightarrow> i < length xs"
  by (auto simp: py_index_def Let_def split: if_splits)

function getOperand :: "nat \<Rightarrow> InstructionPool \<Rightarrow> py_error + (Operand \<times> InstructionPool)" where
  "getOperand beginningOfOperand instructionPool =
     (case py_index (tokenStream instructionPool) (int beginningOfOperand) of
        Inl e \<Rightarrow> Inl e
      | Inr operandToken \<Rightarrow>
          if tokenType operandToken = SEPERATOR then
            getOperand (beginningOfOperand + 1) instructionPool
          else if tokenType operandToken = END then
            (let tokens1 = list_insert beginningOfOperand
                             (mkTypedToken REGISTER ACCUMULATOR
                                (row operandToken) (column operandToken))
                             (tokenStream instructionPool);
                 tokens2 = list_insert beginningOfOperand
                             (mkTypedToken ADDRESSING_MODE REGISTER_ADDRESSING_MODE
                                (row operandToken) (column operandToken))
                             tokens1
             in case py_index tokens2 (int beginningOfOperand - 1) of
                  Inl e \<Rightarrow> Inl e
                | Inr tokenBefore \<Rightarrow>
                    if tokenType tokenBefore = REGISTER \<or> tokenType tokenBefore = LABEL
                       \<or> tokenType tokenBefore = VALUE
                    then
                      operandAt
                        (instructionPool\<lparr>tokenStream :=
                           list_insert beginningOfOperand
                             (mkTypedToken SEPERATOR INSTRUCTION_SEPERATOR_SYMBOL
                                (row operandToken) (column operandToken))
                             tokens2\<rparr>)
                        (beginningOfOperand + 1)
                    else operandAt (instructionPool\<lparr>tokenStream := tokens2\<rparr>) beginningOfOperand)
          else if tokenType operandToken = REGISTER \<or> tokenType operandToken = LABEL
                  \<or> tokenType operandToken = VALUE then
            operandAt
              (instructionPool\<lparr>tokenStream :=
                 list_insert beginningOfOperand
                   (mkTypedToken ADDRESSING_MODE DIRECT_ADDRESSING_MODE
                      (row operandToken) (column operandToken))
                   (tokenStream instructionPool)\<rparr>)
              beginningOfOperand
          else operandAt instructionPool beginningOfOperand)"
  by pat_completeness auto
termination
  by (relation "measure (\<lambda>(i, p). length (tokenStream p) - i)")
     (auto dest!: py_index_Inr_less)

declare getOperand.simps [simp del]

definition analyseProcedureOperand ::
  "SemanticAnalyser \<Rightarrow> Operand \<Rightarrow> InstructionPool \<Rightarrow> SemanticAnalyser" where
  "analyseProcedureOperand self procedureOperand instructionPool =
     (let labelSymbol =
            (case symbolTableGet (symbolTable instructionPool)
                    (tokenValue (operandValue procedureOperand)) of
               None \<Rightarrow> symbolTableGet (symbolTable (analyserGlobalInstructionPool self))
                         (tokenValue (operandValue procedureOperand))
             | Some localSymbol \<Rightarrow> Some localSymbol)
      in if labelSymbol = None then
           recordSemanticAnalysisError self
             (row (operandValue procedureOperand)) (column (operandValue procedureOperand))
             ''Invalid Procedure Call Error'' ''Attempting to call a non-existent procedure''
         else self)"

definition analyseVariableOperand ::
  "SemanticAnalyser \<Rightarrow> Operand \<Rightarrow> InstructionPool \<Rightarrow> SemanticAnalyser" where
  "analyseVariableOperand self variableOperand instructionPool =
     (let localLabelSymbol = symbolTableGet (symbolTable instructionPool)
                               (tokenValue (operandValue variableOperand));
          globalLabelSymbol = symbolTableGet (symbolTable (analyserGlobalInstructionPool self))
                                (tokenValue (operandValue variableOperand))
      in case (if localLabelSymbol = None then globalLabelSymbol else localLabelSymbol) of
           None \<Rightarrow>
             recordSemanticAnalysisError self
               (row (operandValue variableOperand)) (column (operandValue variableOperand))
               ''Invalid Label Error'' ''Attempting to use an undeclared label as a variable''
         | Some labelSymbol \<Rightarrow>
             if labelType labelSymbol = BRANCH_LABEL then
               recordSemanticAnalysisError self
                 (row (operandValue variableOperand)) (column (operandValue variableOperand))
                 ''Invalid Label Error'' ''Attempting to use a branch label as an instruction operand''
             else if labelType labelSymbol = PROCEDURE_LABEL then
               recordSemanticAnalysisError self
                 (row (operandValue variableOperand)) (column (operandValue variableOperand))
                 ''Invalid Label Error''
                 ''Attempting to use a procedure label as an instruction operand''
             else self)"

definition analyseRegisterOperand :: "SemanticAnalyser \<Rightarrow> Operand \<Rightarrow> SemanticAnalyser" where
  "analyseRegisterOperand self registerOperand =
     (let self1 = (if tokenValue (addressingMode registerOperand) \<noteq> REGISTER_ADDRESSING_MODE
                   then recordSemanticAnalysisError self
                          (row (addressingMode registerOperand))
                          (column (addressingMode registerOperand))
                          ''Invalid Addressing Mode Error''
                          ''Non-register addressing mode paired with a register''
                   else self)
      in if tokenValue (operandValue registerOperand) = ''0''
         then recordSemanticAnalysisError self1
                (row (operandValue registerOperand)) (column (operandValue registerOperand))
                ''Invalid Register Error'' ''Cannot access general purpose register 0''
         else self1)"

text \<open>\<open>__analyseBranchOperand\<close>: for a label in direct mode the symbol table of the
  pool is asked for the label, and an error is recorded when it has none.\<close>

definition analyseBranchOperand ::
  "SemanticAnalyser \<Rightarrow> Operand \<Rightarrow> InstructionPool \<Rightarrow> SemanticAnalyser" where
  "analyseBranchOperand self branchOperand instructionPool =
     (if tokenValue (addressingMode branchOperand) = DIRECT_ADDRESSING_MODE
         \<and> tokenType (operandValue branchOperand) = LABEL then
        (case symbolTableGet (symbolTable instructionPool)
                (tokenValue (operandValue branchOperand)) of
           None \<Rightarrow>
             recordSemanticAnalysisError self
               (row (operandValue branchOperand)) (column (operandValue branchOperand))
               ''Invalid Branch Error'' ''Attempting to branch to non-existent location''
         | Some labelSymbol \<Rightarrow> self)
      else
        (let self1 = (if tokenValue (addressingMode branchOperand) \<noteq> DIRECT_ADDRESSING_MODE
                      then recordSemanticAnalysisError self
                             (row (operandValue branchOperand))
                             (column (operandValue branchOperand))
                             ''Invalid Addressing Mode Error''
                             ''Source operand in branch instruction must be addressed in DIRECT mode''
                      else self)
         in if tokenType (operandValue branchOperand) \<noteq> LABEL
            then recordSemanticAnalysisError self1
                   (row (operandValue branchOperand)) (column (operandValue branchOperand))
                   ''Invalid Operand Error''
                   ''Source operand in branch instruction must be a branch label''
            else self1))"

definition analyseOutputInstruction ::
  "SemanticAnalyser \<Rightarrow> Operand \<Rightarrow> InstructionPool \<Rightarrow> SemanticAnalyser" where
  "analyseOutputInstruction self outputInstructionOperand instructionPool =
     (if tokenType (operandValue outputInstructionOperand) = LABEL
      then analyseVariableOperand self outputInstructionOperand instructionPool
      else if tokenType (operandValue outputInstructionOperand) = REGISTER
      then analyseRegisterOperand self outputInstructionOperand
      else self)"

definition analyseCallInstruction ::
  "SemanticAnalyser \<Rightarrow> Operand \<Rightarrow> InstructionPool \<Rightarrow> SemanticAnalyser" where
  "analyseCallInstruction self callInstructionOperand instructionPool =
     (if tokenType (operandValue callInstructionOperand) = LABEL then
        (case (case symbolTableGet (symbolTable instructionPool)
                      (tokenValue (operandValue callInstructionOperand)) of
                 None \<Rightarrow> symbolTableGet (symbolTable (analyserGlobalInstructionPool self))
                           (tokenValue (operandValue callInstructionOperand))
               | Some localSymbol \<Rightarrow> Some localSymbol) of
           None \<Rightarrow>
             recordSemanticAnalysisError self
               (row (operandValue callInstructionOperand))
               (column (operandValue callInstructionOperand))
               ''Invalid Procedure Error'' ''Attempting to call non-existent procedure''
         | Some labelSymbol \<Rightarrow>
             if labelType labelSymbol \<noteq> PROCEDURE_LABEL then
               recordSemanticAnalysisError self
                 (row (operandValue callInstructionOperand))
                 (column (operandValue callInstructionOperand))
                 ''Invalid Operands Error'' ''Call instruction operand must be a procedure label''
             else if tokenValue (addressingMode callInstructionOperand) \<noteq> DIRECT_ADDRESSING_MODE then
               recordSemanticAnalysisError self
                 (row (addressingMode callInstructionOperand))
                 (column (addressingMode callInstructionOperand))
                 ''Invalid Addressing Mode Error''
                 ''Call instruction operand must be a procedure label addressed in direct addressing mode''
             else analyseProcedureOperand self callInstructionOperand instructionPool)
      else
        recordSemanticAnalysisError self
          (row (operandValue callInstructionOperand))
          (column (operandValue callInstructionOperand))
          ''Invalid Operands Error'' ''Call instruction operand must be a label'')"

definition analyseInputInstruction ::
  "SemanticAnalyser \<Rightarrow> Operand \<Rightarrow> InstructionPool \<Rightarrow> SemanticAnalyser" where
  "analyseInputInstruction self inputInstructionOperand instructionPool =
     (if tokenValue (addressingMode inputInstructionOperand) \<noteq> REGISTER_ADDRESSING_MODE then
        recordSemanticAnalysisError self
          (row (addressingMode inputInstructionOperand))
          (column (addressingMode inputInstructionOperand))
          ''Invalid Addressing Mode Error''
          ''Input instruction operand must be addressed in register addressing mode''
      else analyseRegisterOperand self inputInstructionOperand)"

definition analyseAddressingMode ::
  "SemanticAnalyser \<Rightarrow> Operand \<Rightarrow> InstructionPool \<Rightarrow> SemanticAnalyser" where
  "analyseAddressingMode self instructionOperand instructionPool =
     (if tokenValue (addressingMode instructionOperand) = REGISTER_ADDRESSING_MODE
         \<and> tokenType (operandValue instructionOperand) \<noteq> REGISTER then
        recordSemanticAnalysisError self
          (row (operandValue instructionOperand)) (column (operandValue instructionOperand))
          ''Invalid Operand Error'' ''Non-register paired with register addressing mode''
      else self)"

definition analyseOperand ::
  "SemanticAnalyser \<Rightarrow> Operand \<Rightarrow> int \<Rightarrow> InstructionPool \<Rightarrow> SemanticAnalyser" where
  "analyseOperand self instructionOperand operandNumber instructionPool =
     (let self1 = analyseAddressingMode self instructionOperand instructionPool
      in if operandNumber = 2 then
           (if tokenType (operandValue instructionOperand) = REGISTER
            then analyseRegisterOperand self1 instructionOperand
            else recordSemanticAnalysisError self1
                   (row (operandValue instructionOperand))
                   (column (operandValue instructionOperand))
                   ''Invalid Operand Error'' ''Second operand must be a register'')
         else if tokenType (operandValue instructionOperand) = LABEL
           then analyseVariableOperand self1 instructionOperand instructionPool
         else if tokenType (operandValue instructionOperand) = REGISTER
           then analyseRegisterOperand self1 instructionOperand
         else self1)"

definition analyseSingleOperandInstruction ::
  "SemanticAnalyser \<Rightarrow> TypedToken \<Rightarrow> nat \<Rightarrow> InstructionPool
     \<Rightarrow> py_error + (SemanticAnalyser \<times> InstructionPool)" where
  "analyseSingleOperandInstruction self singleOperandInstruction beginningOfOperands instructionPool =
     (case py_index (tokenStream instructionPool) (int beginningOfOperands) of
        Inl e \<Rightarrow> Inl e
      | Inr firstToken \<Rightarrow>
          if tokenType firstToken = END
             \<and> tokenValue singleOperandInstruction \<in> set EXPLICIT_SINGLE_OPERAND_INSTRUCTIONS then
            Inr (recordSemanticAnalysisError self
                   (row singleOperandInstruction) (column singleOperandInstruction)
                   ''Invalid Operands Error''
                   (''Operand must explicitly be present for a ''
                      @ tokenValue singleOperandInstruction @ '' instruction''),
                 instructionPool)
          else
            (case getOperand beginningOfOperands instructionPool of
               Inl e \<Rightarrow> Inl e
             | Inr (instructionOperand, pool1) \<Rightarrow>
                 (let self1 = analyseAddressingMode self instructionOperand pool1
                  in if tokenValue singleOperandInstruction \<in> {''OUT'', ''OUTC'', ''OUTB''} then
                       Inr (analyseOutputInstruction self1 instructionOperand pool1, pool1)
                     else if tokenValue singleOperandInstruction = ''CALL'' then
                       Inr (analyseCallInstruction self1 instructionOperand pool1, pool1)
                     else if tokenValue singleOperandInstruction = ''INP'' then
                       Inr (analyseInputInstruction self1 instructionOperand pool1, pool1)
                     else Inr (self1, pool1))))"

definition analyseBranchInstruction ::
  "SemanticAnalyser \<Rightarrow> nat \<Rightarrow> InstructionPool \<Rightarrow> py_error + (SemanticAnalyser \<times> InstructionPool)" where
  "analyseBranchInstruction self beginningOfOperands instructionPool =
     (case getOperand beginningOfOperands instructionPool of
        Inl e \<Rightarrow> Inl e
      | Inr (sourceOperand, pool1) \<Rightarrow>
          (case getOperand (beginningOfOperands + 2) pool1 of
             Inl e \<Rightarrow> Inl e
           | Inr (destinationOperand, pool2) \<Rightarrow>
               (let self1 = analyseBranchOperand self sourceOperand pool2
                in Inr (analyseOperand self1 destinationOperand 2 pool2, pool2))))"

definition analyseGenericDoubleOperandInstruction ::
  "SemanticAnalyser \<Rightarrow> nat \<Rightarrow> InstructionPool \<Rightarrow> py_error + (SemanticAnalyser \<times> InstructionPool)" where
  "analyseGenericDoubleOperandInstruction self beginningOfOperands instructionPool =
     (case getOperand beginningOfOperands instructionPool of
        Inl e \<Rightarrow> Inl e
      | Inr (sourceOperand, pool1) \<Rightarrow>
          (case getOperand (beginningOfOperands + 2) pool1 of
             Inl e \<Rightarrow> Inl e
           | Inr (destinationOperand, pool2) \<Rightarrow>
               (let self1 = analyseOperand self sourceOperand 1 pool2
                in Inr (analyseOperand self1 destinationOperand 2 pool2, pool2))))"

definition analyseDataFlowInstruction ::
  "SemanticAnalyser \<Rightarrow> nat \<Rightarrow> InstructionPool \<Rightarrow> py_error + (SemanticAnalyser \<times> InstructionPool)" where
  "analyseDataFlowInstruction self beginningOfOperands instructionPool =
     (case getOperand beginningOfOperands instructionPool of
        Inl e \<Rightarrow> Inl e
      | Inr (sourceOperand, pool1) \<Rightarrow>
          (case getOperand (beginningOfOperands + 2) pool1 of
             Inl e \<Rightarrow> Inl e
           | Inr (destinationOperand, pool2) \<Rightarrow>
               (let self1 = (if tokenValue (addressingMode sourceOperand) = IMMEDIATE_ADDRESSING_MODE
                             then recordSemanticAnalysisError self
                                    (row (addressingMode sourceOperand))
                                    (column (addressingMode sourceOperand))
                                    ''Invalid Addressing Mode Error''
                                    ''Cannot address a data flow instruction in immediate mode''
                             else self);
                    self2 = analyseOperand self1 sourceOperand 1 pool2
                in Inr (analyseOperand self2 destinationOperand 2 pool2, pool2))))"

definition analyseDoubleOperandInstruction ::
  "SemanticAnalyser \<Rightarrow> TypedToken \<Rightarrow> nat \<Rightarrow> InstructionPool
     \<Rightarrow> py_error + (SemanticAnalyser \<times> InstructionPool)" where
  "analyseDoubleOperandInstruction self doubleOperandInstruction beginningOfOperands instructionPool =
     (case py_index (tokenStream instructionPool) (int beginningOfOperands) of
        Inl e \<Rightarrow> Inl e
      | Inr firstToken \<Rightarrow>
          if tokenType firstToken = END then
            Inr (recordSemanticAnalysisError self
                   (row doubleOperandInstruction) (column doubleOperandInstruction)
                   ''Invalid Operands Error''
                   ''The SOURCE operand for any double operand instruction must be explicitly stated'',
                 instructionPool)
          else if tokenValue doubleOperandInstruction \<in> set BRANCH_INSTRUCTIONS then
            analyseBranchInstruction self beginningOfOperands instructionPool
          else if tokenValue doubleOperandInstruction \<in> set DATA_FLOW_INSTRUCTIONS then
            analyseDataFlowInstruction self beginningOfOperands instructionPool
          else analyseGenericDoubleOperandInstruction self beginningOfOperands instructionPool)"

text \<open>The text of a number in an error message.\<close>

fun decimal_digits :: "nat \<Rightarrow> string" where
  "decimal_digits n =
     (if n < 10 then [char_of (48 + n)]
      else decimal_digits (n div 10) @ [char_of (48 + n mod 10)])"

declare decimal_digits.simps [simp del]

definition py_str :: "int \<Rightarrow> string" where
  "py_str i = (if i < 0 then ''-'' @ decimal_digits (nat (- i)) else decimal_digits (nat i))"

definition analyseInstruction ::
  "SemanticAnalyser \<Rightarrow> nat \<Rightarrow> InstructionPool \<Rightarrow> py_error + (SemanticAnalyser \<times> InstructionPool)" where
  "analyseInstruction self beginningOfInstruction instructionPool =
     (case py_index (tokenStream instructionPool) (int beginningOfInstruction) of
        Inl e \<Rightarrow> Inl e
      | Inr chadsemblyInstruction \<Rightarrow>
          (case countNumberOfOperands beginningOfInstruction instructionPool of
             Inl e \<Rightarrow> Inl e
           | Inr numberOfOperands \<Rightarrow>
               (case dict_get NUMBER_OF_INSTRUCTION_OPERANDS (tokenValue chadsemblyInstruction) of
                  Inl e \<Rightarrow> Inl e
                | Inr maximumOperandsForInstruction \<Rightarrow>
                    if numberOfOperands > maximumOperandsForInstruction then
                      Inr (recordSemanticAnalysisError self
                             (row chadsemblyInstruction) (column chadsemblyInstruction)
                             ''Invalid Operands Error''
                             (py_str numberOfOperands
                                @ '' operands given for instruction that accepts, at most, ''
                                @ py_str maximumOperandsForInstruction @ '' operands''),
                           instructionPool)
                    else if maximumOperandsForInstruction = 0 then Inr (self, instructionPool)
                    else if maximumOperandsForInstruction = 1 then
                      analyseSingleOperandInstruction self chadsemblyInstruction
                        (beginningOfInstruction + 1) instructionPool
                    else if maximumOperandsForInstruction = 2 then
                      analyseDoubleOperandInstruction self chadsemblyInstruction
                        (beginningOfInstruction + 1) instructionPool
                    else Inr (self, instructionPool))))"

text \<open>The loop of \<open>__semanticallyAnalyseInstructionPool\<close> reads the length of the token
  stream in every round, and the analysis of an instruction makes the stream longer.\<close>

partial_function (option) semanticallyAnalyseLoop ::
  "SemanticAnalyser \<Rightarrow> nat \<Rightarrow> InstructionPool
     \<Rightarrow> (py_error + (SemanticAnalyser \<times> InstructionPool)) option" where
  "semanticallyAnalyseLoop self currentIndex instructionPool =
     (if currentIndex < length (tokenStream instructionPool) then
        (if tokenType (tokenStream instructionPool ! currentIndex) = INSTRUCTION then
           (case analyseInstruction self currentIndex instructionPool of
              Inl e \<Rightarrow> Some (Inl e)
            | Inr (self1, pool1) \<Rightarrow> semanticallyAnalyseLoop self1 (currentIndex + 1) pool1)
         else semanticallyAnalyseLoop self (currentIndex + 1) instructionPool)
      else Some (Inr (self, instructionPool)))"

declare semanticallyAnalyseLoop.simps [code]

definition semanticallyAnalyseInstructionPool ::
  "SemanticAnalyser \<Rightarrow> InstructionPool \<Rightarrow> (py_error + (SemanticAnalyser \<times> InstructionPool)) option" where
  "semanticallyAnalyseInstructionPool self instructionPool =
     semanticallyAnalyseLoop self 0 instructionPool"

fun analysePools :: "SemanticAnalyser \<Rightarrow> string list \<Rightarrow> (py_error + SemanticAnalyser) option" where
  "analysePools self [] = Some (Inr self)"
| "analysePools self (identifier # identifiers) =
     (case dict_get (analyserInstructionPools self) identifier of
        Inl e \<Rightarrow> Some (Inl e)
      | Inr pool \<Rightarrow>
          (case semanticallyAnalyseInstructionPool self pool of
             None \<Rightarrow> None
           | Some (Inl e) \<Rightarrow> Some (Inl e)
           | Some (Inr (self1, pool1)) \<Rightarrow>
               analysePools
                 (self1\<lparr>analyserInstructionPools :=
                          AList.update identifier pool1 (analyserInstructionPools self1)\<rparr>)
                 identifiers))"

text \<open>\<open>semanticAnalyse\<close>. \<open>__getSemanticAnalysisErrors\<close> prints the errors and leaves the
  program when there is one: a result \<open>Inr (Inl errors)\<close>.\<close>

definition semanticAnalyse ::
  "SemanticAnalyser
     \<Rightarrow> (py_error + (error_message list + ((string \<times> InstructionPool) list \<times> InstructionPool)))
          option" where
  "semanticAnalyse self =
     (case semanticallyAnalyseInstructionPool self (analyserGlobalInstructionPool self) of
        None \<Rightarrow> None
      | Some (Inl e) \<Rightarrow> Some (Inl e)
      | Some (Inr (self1, global1)) \<Rightarrow>
          (case analysePools (self1\<lparr>analyserGlobalInstructionPool := global1\<rparr>)
                  (map fst (analyserInstructionPools self1)) of
             None \<Rightarrow> None
           | Some (Inl e) \<Rightarrow> Some (Inl e)
           | Some (Inr self2) \<Rightarrow>
               if semanticAnalyserErrors self2 \<noteq> [] then Some (Inr (Inl (semanticAnalyserErrors self2)))
               else Some (Inr (Inr (analyserInstructionPools self2,
                                     analyserGlobalInstructionPool self2)))))"

section \<open>Properties\<close>

subsection \<open>Binary strings\<close>

lemma length_bin_digits_le: "0 < k \<Longrightarrow> n < 2 ^ k \<Longrightarrow> length (bin_digits n) \<le> k"
proof (induction n arbitrary: k rule: bin_digits.induct)
  case (1 n)
  show ?case
  proof (cases "n < 2")
    case True
    with "1.prems" show ?thesis by (subst bin_digits.simps) simp
  next
    case False
    then obtain j where k: "k = Suc j" and j: "0 < j"
      using "1.prems" by (cases k; cases "k - 1") auto
    from "1.prems" k have "n div 2 < 2 ^ j" by auto
    with "1.IH"[OF False j] have "length (bin_digits (n div 2)) \<le> j" by simp
    with False k show ?thesis by (subst bin_digits.simps) simp
  qed
qed

lemma parse_base2_append:
  "parse_base2 acc (xs @ [bit_char d]) =
     (case parse_base2 acc xs of Inl e \<Rightarrow> Inl e
      | Inr v \<Rightarrow> Inr (2 * v + (if d = 0 then 0 else 1)))"
  by (induction xs arbitrary: acc) (auto simp: bit_char_def)

lemma parse_base2_bin_digits: "parse_base2 0 (bin_digits n) = Inr (int n)"
proof (induction n rule: bin_digits.induct)
  case (1 n)
  show ?case
  proof (cases "n < 2")
    case True
    then have "n = 0 \<or> n = 1" by auto
    then show ?thesis by (subst bin_digits.simps) (auto simp: bit_char_def)
  next
    case False
    have "parse_base2 0 (bin_digits n) = parse_base2 0 (bin_digits (n div 2) @ [bit_char (n mod 2)])"
      using False by (subst bin_digits.simps) simp
    also have "\<dots> = Inr (2 * int (n div 2) + (if n mod 2 = 0 then 0 else 1))"
      using "1.IH"[OF False] by (simp add: parse_base2_append)
    also have "2 * int (n div 2) + (if n mod 2 = 0 then 0 else 1) = int n"
      by (simp add: zdiv_int zmod_int) presburger
    finally show ?thesis .
  qed
qed

lemma parse_base2_zeros: "parse_base2 0 (replicate k CHR ''0'' @ s) = parse_base2 0 s"
  by (induction k) auto

lemma bin_digits_nonempty: "bin_digits n \<noteq> []"
  by (subst bin_digits.simps) simp

lemma int_base2_padded:
  "int_base2 (replicate k CHR ''0'' @ bin_digits n) = Inr (int n)"
  by (simp add: int_base2_def bin_digits_nonempty parse_base2_zeros parse_base2_bin_digits)

lemma toBinary_eq: "toBinary v = bin_digits (nat \<bar>v\<bar>)"
  by (simp add: toBinary_def py_bin_def)

lemma str_times_zero_char: "str_times ''0'' n = replicate (nat n) CHR ''0''"
  by (induction "nat n" arbitrary: n) (auto simp: str_times_def)

lemma signedInteger_shape:
  assumes "2 \<le> W"
  shows "signedInteger n W =
           (if n < 0 then CHR ''1'' else CHR ''0'') #
           replicate (nat (W - int (length (bin_digits (nat (\<bar>n\<bar> mod 2 ^ nat (W - 1))))) - 1)) CHR ''0'' @
           bin_digits (nat (\<bar>n\<bar> mod 2 ^ nat (W - 1)))"
proof -
  have "0 \<le> \<bar>n\<bar> mod 2 ^ nat (W - 1)" by simp
  then have abs_id: "\<bar>\<bar>n\<bar> mod 2 ^ nat (W - 1)\<bar> = \<bar>n\<bar> mod 2 ^ nat (W - 1)" by linarith
  have pos: "0 \<le> n \<Longrightarrow> \<bar>n mod 2 ^ nat (W - 1)\<bar> = \<bar>n\<bar> mod 2 ^ nat (W - 1)"
    by simp
  show ?thesis
    using assms
    by (auto simp: signedInteger_def Let_def padBinary_def toBinary_eq str_times_zero_char
        abs_id pos)
qed

text \<open>
  Claim C1. For every integer \<open>n\<close> and every width \<open>W \<ge> 2\<close>, reading back the signed
  encoding of \<open>n\<close> succeeds and gives the magnitude of \<open>n\<close> reduced modulo \<open>2^(W-1)\<close>
  with the sign of \<open>n\<close>; a negative zero reads as zero.
\<close>

theorem readSignedInteger_signedInteger:
  "2 \<le> W \<Longrightarrow>
   readSignedInteger (signedInteger n W) = Inr (sgn n * (\<bar>n\<bar> mod 2 ^ nat (W - 1)))"
proof -
  assume W: "2 \<le> W"
  let ?m = "\<bar>n\<bar> mod 2 ^ nat (W - 1)"
  have m0: "0 \<le> ?m" by simp
  have rd: "readSignedInteger (signedInteger n W) =
              Inr ((if n < 0 then - 1 else 1) * int (nat ?m))"
    unfolding signedInteger_shape[OF W] readSignedInteger_def
    by (simp add: int_base2_padded)
  show ?thesis
  proof (cases "n = 0")
    case True
    with rd m0 show ?thesis by simp
  next
    case False
    with rd m0 show ?thesis by (auto simp: sgn_if)
  qed
qed

theorem readSignedInteger_signedInteger_witness:
  "(2::int) \<le> 4 \<and> readSignedInteger (signedInteger (- 13) 4) = Inr (- 5)"
  using readSignedInteger_signedInteger [of 4 "- 13"] by simp

subsection \<open>The register wrap\<close>

lemma wrapAround_one:
  "0 < v \<Longrightarrow> 1 \<le> G \<Longrightarrow> wrapAround 1 G v = Some (1 + (v - 1) mod G)"
proof (induction "nat v" arbitrary: v rule: less_induct)
  case less
  show ?case
  proof (cases "v > G")
    case True
    have pos: "0 < v - G" using True by simp
    have "nat (v - G) < nat v" using less.prems True by simp
    from less.hyps[OF this pos less.prems(2)]
    have "wrapAround 1 G (v - G) = Some (1 + (v - G - 1) mod G)" .
    moreover have "(v - G - 1) mod G = (v - 1) mod G"
      by (metis diff_right_commute minus_mod_self2)
    ultimately show ?thesis
      using True by (subst wrapAround.simps) simp
  next
    case False
    with less.prems have "(v - 1) mod G = v - 1" by simp
    with False show ?thesis by (subst wrapAround.simps) simp
  qed
qed

text \<open>
  Claim C7. For every positive \<open>v\<close> and every register count \<open>G \<ge> 1\<close> the wrap loop
  with bounds \<open>1\<close> and \<open>G\<close> returns, its result is \<open>1 + ((v - 1) mod G)\<close>, that is
  \<open>lo + ((v - lo) mod (hi - lo + 1))\<close> for \<open>lo = 1\<close> and \<open>hi = G\<close>, and the
  result lies in \<open>[1 .. G]\<close>.
\<close>

theorem wrapAround_closed_form:
  "0 < v \<Longrightarrow> 1 \<le> G \<Longrightarrow>
   wrapAround 1 G v = Some (1 + ((v - 1) mod (G - 1 + 1)))
   \<and> 1 \<le> 1 + ((v - 1) mod (G - 1 + 1)) \<and> 1 + ((v - 1) mod (G - 1 + 1)) \<le> G"
proof -
  assume v: "0 < v" and G: "1 \<le> G"
  have "0 \<le> (v - 1) mod G" and "(v - 1) mod G < G" using G by simp_all
  then show ?thesis using wrapAround_one[OF v G] by simp
qed

theorem wrapAround_closed_form_witness:
  "(0::int) < 23 \<and> (1::int) \<le> 10 \<and> wrapAround 1 10 23 = Some 3"
  using wrapAround_closed_form [of 23 10] by simp

subsection \<open>The instruction width\<close>

lemma length_bin_digits: "0 < n \<Longrightarrow> length (bin_digits n) = floorlog 2 n"
proof (induction n rule: bin_digits.induct)
  case (1 n)
  show ?case
  proof (cases "n < 2")
    case True
    with "1.prems" have "n = 1" by simp
    then show ?thesis by (subst bin_digits.simps) (simp add: compute_floorlog)
  next
    case False
    then have "0 < n div 2" by simp
    with "1.IH"[OF False] have "length (bin_digits (n div 2)) = floorlog 2 (n div 2)" by simp
    with False show ?thesis
      by (subst bin_digits.simps, subst compute_floorlog) simp
  qed
qed

lemma numberOfBits_bitlen: "0 < n \<Longrightarrow> numberOfBits n = bitlen n"
  by (simp add: numberOfBits_def toBinary_eq length_bin_digits bitlen_def)

lemma numberOfBits_27: "numberOfBits 27 = 5"
  by (simp add: numberOfBits_bitlen compute_bitlen)

lemma numberOfBits_4: "numberOfBits 4 = 3"
  by (simp add: numberOfBits_bitlen compute_bitlen)

lemma NUMBER_OF_INSTRUCTIONS_27: "NUMBER_OF_INSTRUCTIONS = 27"
  by (simp add: NUMBER_OF_INSTRUCTIONS_def INSTRUCTION_SET_def)

lemma NUMBER_OF_ADDRESSING_MODES_4: "NUMBER_OF_ADDRESSING_MODES = 4"
  by (simp add: NUMBER_OF_ADDRESSING_MODES_def ADDRESSING_MODE_CHARACTERS_def
      IMMEDIATE_ADDRESSING_MODE_def DIRECT_ADDRESSING_MODE_def INDIRECT_ADDRESSING_MODE_def
      REGISTER_ADDRESSING_MODE_def)

lemma NUMBER_OF_SPECIAL_PURPOSE_REGISTERS_4: "NUMBER_OF_SPECIAL_PURPOSE_REGISTERS = 4"
  by (simp add: NUMBER_OF_SPECIAL_PURPOSE_REGISTERS_def SPECIAL_PURPOSE_REGISTERS_OFFSET_def)

lemma calculateNumberOfOperandBits_eq:
  assumes "dict_get cfg MEMORY_CONFIGURATION_OPTION = Inr m"
    and "dict_get cfg REGISTERS_CONFIGURATION_OPTION = Inr g"
    and "0 \<le> g"
  shows "calculateNumberOfOperandBits cfg = Inr (bitlen (max m (g + 4)) + 1)"
proof -
  have "0 < g + 4" using assms(3) by simp
  moreover have "m > g + 4 \<Longrightarrow> 0 < m" using assms(3) by simp
  ultimately show ?thesis
    using assms(1,2)
    by (auto simp: calculateNumberOfOperandBits_def Let_def
        NUMBER_OF_SPECIAL_PURPOSE_REGISTERS_4 numberOfBits_bitlen max_def)
qed

text \<open>
  Claim C4, as the code has it. The generator measures every part by the length of the
  binary numeral of the count itself, \<open>\<lfloor>log2 n\<rfloor> + 1\<close>, not by \<open>\<lceil>log2 n\<rceil>\<close>: for a
  configuration with \<open>m\<close> memory cells and \<open>g \<ge> 0\<close> general registers the widths are
  \<open>M = 5\<close> (27 opcodes), \<open>A = 3\<close> (4 addressing modes),
  \<open>O = (\<lfloor>log2 (max m (g + 4))\<rfloor> + 1) + 1\<close> and \<open>W = M + A + 2 * O\<close>.
\<close>

theorem codeGeneratorFormat_widths:
  assumes "dict_get cfg MEMORY_CONFIGURATION_OPTION = Inr m"
    and "dict_get cfg REGISTERS_CONFIGURATION_OPTION = Inr g"
    and "0 \<le> g"
  shows "codeGeneratorFormat cfg =
           Inr \<lparr>numberOfMachineOperationBits = 5,
                numberOfAddressingModeBits = 3,
                numberOfOperandBits = (\<lfloor>log 2 (real_of_int (max m (g + 4)))\<rfloor> + 1) + 1,
                totalNumberOfInstructionBits =
                  5 + 3 + 2 * ((\<lfloor>log 2 (real_of_int (max m (g + 4)))\<rfloor> + 1) + 1)\<rparr>"
proof -
  have "0 < max m (g + 4)" using assms(3) by simp
  then have "bitlen (max m (g + 4)) = \<lfloor>log 2 (real_of_int (max m (g + 4)))\<rfloor> + 1"
    by (simp add: bitlen_alt_def)
  then show ?thesis
    using calculateNumberOfOperandBits_eq[OF assms]
    by (simp add: codeGeneratorFormat_def Let_def NUMBER_OF_INSTRUCTIONS_27
        NUMBER_OF_ADDRESSING_MODES_4 numberOfBits_27 numberOfBits_4)
qed

lemma default_configuration_lookups:
  "dict_get [(''MEMORY'', 100), (''REGISTERS'', 10), (''CLOCK'', 0)] MEMORY_CONFIGURATION_OPTION
     = Inr (100::int)"
  "dict_get [(''MEMORY'', 100), (''REGISTERS'', 10), (''CLOCK'', 0)] REGISTERS_CONFIGURATION_OPTION
     = Inr (10::int)"
  by (simp_all add: dict_get_def MEMORY_CONFIGURATION_OPTION_def
      REGISTERS_CONFIGURATION_OPTION_def)

lemma floor_log2_100: "\<lfloor>log 2 (real_of_int 100)\<rfloor> = 6"
  using bitlen_alt_def[of 100] by (simp add: compute_bitlen)

theorem codeGeneratorFormat_widths_witness:
  "dict_get [(''MEMORY'', 100), (''REGISTERS'', 10), (''CLOCK'', 0)] MEMORY_CONFIGURATION_OPTION
     = Inr (100::int)
   \<and> dict_get [(''MEMORY'', 100), (''REGISTERS'', 10), (''CLOCK'', 0)]
        REGISTERS_CONFIGURATION_OPTION = Inr (10::int)
   \<and> (0::int) \<le> 10
   \<and> codeGeneratorFormat [(''MEMORY'', 100), (''REGISTERS'', 10), (''CLOCK'', 0)] =
        Inr \<lparr>numberOfMachineOperationBits = 5, numberOfAddressingModeBits = 3,
             numberOfOperandBits = 8, totalNumberOfInstructionBits = 24\<rparr>"
  using codeGeneratorFormat_widths [OF default_configuration_lookups, of ]
    default_configuration_lookups floor_log2_100
  by simp

text \<open>
  The claim as the specification words it fails at the default configuration
  (100 memory cells, 10 general registers): the generator emits 24 bits where the
  formula of ceilings gives 23.
\<close>

theorem codeGeneratorFormat_spec_counterexample:
  "codeGeneratorFormat [(''MEMORY'', 100), (''REGISTERS'', 10), (''CLOCK'', 0)] =
     Inr \<lparr>numberOfMachineOperationBits = 5, numberOfAddressingModeBits = 3,
          numberOfOperandBits = 8, totalNumberOfInstructionBits = 24\<rparr>
   \<and> specInstructionWidth 100 10 = 23"
proof -
  have "bitlen 100 = 7" by (simp add: compute_bitlen)
  then have "calculateNumberOfOperandBits [(''MEMORY'', 100), (''REGISTERS'', 10), (''CLOCK'', 0)]
               = Inr 8"
    using calculateNumberOfOperandBits_eq[OF default_configuration_lookups] by simp
  moreover have "specInstructionWidth 100 10 = 23"
    by (simp add: specInstructionWidth_def ceillog2_code ceillog2_aux.simps)
  ultimately show ?thesis
    by (simp add: codeGeneratorFormat_def Let_def NUMBER_OF_INSTRUCTIONS_27
        NUMBER_OF_ADDRESSING_MODES_4 numberOfBits_27 numberOfBits_4)
qed

subsection \<open>The number of tokens of a directive\<close>

text \<open>
  Claim C8, as the code has it. The length check records a Syntax Error exactly when
  the directive has one token or three and more; it records nothing for two tokens
  and nothing for no token at all (an empty directive is skipped), and it lets the
  directive through only with two tokens.
\<close>

theorem isValidNumberOfTokens_errors:
  "processingErrors (snd (isValidNumberOfTokens self ts)) =
     processingErrors self @
       (if length ts = 1
        then [ErrorAt ''Syntax Error'' (row (hd ts)) (column (hd ts))
                ''A Key : Value pair was not found'']
        else if 3 \<le> length ts
        then [ErrorAt ''Syntax Error'' (row (hd ts)) 0
                ''Should only contain a single Key : Value pair'']
        else [])
   \<and> fst (isValidNumberOfTokens self ts) = (length ts = 2)"
proof (cases ts)
  case Nil
  then show ?thesis by (simp add: isValidNumberOfTokens_def)
next
  case (Cons t ts1)
  note c1 = Cons
  show ?thesis
  proof (cases ts1)
    case Nil
    with c1 show ?thesis by (simp add: isValidNumberOfTokens_def recordError_def)
  next
    case (Cons u ts2)
    note c2 = Cons
    show ?thesis
    proof (cases ts2)
      case Nil
      with c1 c2 show ?thesis by (simp add: isValidNumberOfTokens_def)
    next
      case (Cons v ts3)
      with c1 c2 show ?thesis by (simp add: isValidNumberOfTokens_def recordError_def)
    qed
  qed
qed

theorem isValidNumberOfTokens_errors_witness:
  "processingErrors
     (snd (isValidNumberOfTokens
        \<lparr>listOfArguments = [], directivePrefix = CHR ''!'', tokenDelimiter = CHR ''='',
         systemConfigurationTable = [], minimumValuesTable = [], processingErrors = [],
         currentPositionTracker = \<lparr>row = 1, column = 1\<rparr>\<rparr>
        [mkUntypedToken ''MEMORY'' 1 1]))
   = [ErrorAt ''Syntax Error'' 1 1 ''A Key : Value pair was not found'']"
  using isValidNumberOfTokens_errors
    [of "\<lparr>listOfArguments = [], directivePrefix = CHR ''!'', tokenDelimiter = CHR ''='',
          systemConfigurationTable = [], minimumValuesTable = [], processingErrors = [],
          currentPositionTracker = \<lparr>row = 1, column = 1\<rparr>\<rparr>"
        "[mkUntypedToken ''MEMORY'' 1 1]"]
  by (simp add: mkUntypedToken_def)

text \<open>
  The claim as stated fails for a directive without tokens: the argument \<open>=\<close> holds
  only the delimiter, its tokenisation is empty, and parsing it records no error.
\<close>

theorem isValidNumberOfTokens_zero_counterexample:
  "fst (tokeniseArgument
          \<lparr>listOfArguments = [''=''], directivePrefix = CHR ''!'', tokenDelimiter = CHR ''='',
           systemConfigurationTable = [], minimumValuesTable = [], processingErrors = [],
           currentPositionTracker = \<lparr>row = 1, column = 1\<rparr>\<rparr> ''='') = []
   \<and> argumentProcess
         \<lparr>listOfArguments = [''=''], directivePrefix = CHR ''!'', tokenDelimiter = CHR ''='',
          systemConfigurationTable = [], minimumValuesTable = [], processingErrors = [],
          currentPositionTracker = \<lparr>row = 1, column = 1\<rparr>\<rparr>
       = Inr \<lparr>listOfArguments = [''=''], directivePrefix = CHR ''!'', tokenDelimiter = CHR ''='',
              systemConfigurationTable = [], minimumValuesTable = [], processingErrors = [],
              currentPositionTracker = \<lparr>row = 2, column = 1\<rparr>\<rparr>"
  by (simp add: argumentProcess_def tokeniseArgument_def getTokens.simps parseTokenStream_def
      isValidNumberOfTokens_def LINE_BREAK_CHARACTERS_def WHITE_SPACE_CHARACTERS_def)


subsection \<open>The fetch of the virtual machine\<close>

lemma runLoop_signed_guard:
  assumes "read_cell (vmPool self) pcAddress = Inr v" and "n \<le> v"
  shows "runLoop (Suc fuel) pcAddress n self = Some (Inr self)"
  using assms by simp

text \<open>
  Claim C2 at a program the assembler accepts, \<open>SUB #5, PC\<close>, under the default
  configuration (100 memory cells asked for, 10 general registers, widths 5, 3, 8 and
  24). The first round takes the Program Counter from 0 to 1 and then to \<open>1 - 5\<close>, a
  cell with the sign bit set. Its unsigned reading is far beyond the 128 cells, but
  the guard of the loop reads it as \<open>-4\<close> and goes on, and the fetch with the unsigned
  reading raises KeyError: the run does not end cleanly.
\<close>

theorem run_negative_program_counter_KeyError:
  "runEnd
     (case newVirtualMachine [(''MEMORY'', 100), (''REGISTERS'', 10), (''CLOCK'', 0)]
             [unsignedInteger 2 5 @ unsignedInteger 3 3 @ signedInteger 5 8 @ signedInteger 12 8]
             5 3 8 24 [] of
        Inl e \<Rightarrow> Some (Inl e)
      | Inr vm \<Rightarrow> run 2 vm)
   = Stopped (Raised KeyError)"
  by code_simp



subsection \<open>The Flags register after a shift\<close>

lemma shiftLoop_total:
  assumes step: "\<And>c v. length v = L \<Longrightarrow> \<exists>c1 v1. step c v = Inr (c1, v1) \<and> length v1 = L"
    and len: "length v = L"
  shows "\<exists>c1 v1. shiftLoop step n (c, v) = Inr (c1, v1) \<and> length v1 = L"
  using len
proof (induction n arbitrary: c v)
  case 0
  then show ?case by simp
next
  case (Suc n)
  from step[OF Suc.prems, of c] obtain c1 v1
    where s1: "step c v = Inr (c1, v1)" and l1: "length v1 = L" by blast
  from Suc.IH[OF l1, of c1] s1 show ?case by simp
qed

lemma carry_steps_total:
  assumes "(operation, step) \<in> set
       [(LSL, \<lambda>carry v. logicalShiftLeft v), (LSR, \<lambda>carry v. logicalShiftRight v),
        (ASL, \<lambda>carry v. arithmeticShiftLeft v), (ASR, \<lambda>carry v. arithmeticShiftRight v),
        (CSLC, \<lambda>carry v. circularShiftLeftWithCarry v carry),
        (CSRC, \<lambda>carry v. circularShiftRightWithCarry v carry)]"
    and "2 \<le> L" and "length x = L"
  shows "operation = carryShift step \<and> (\<exists>c1 v1. step c x = Inr (c1, v1) \<and> length v1 = L)"
proof -
  from assms(2,3) obtain a b w where x: "x = a # b # w"
    by (cases x; cases "tl x") auto
  have ne: "x \<noteq> []" using x by simp
  have bl: "Suc (length (butlast x)) = L" using assms(2,3) by simp
  have tl: "Suc (Suc (length w)) = L" using assms(3) x by simp
  from assms(1) consider
      "operation = LSL" "step = (\<lambda>carry v. logicalShiftLeft v)"
    | "operation = LSR" "step = (\<lambda>carry v. logicalShiftRight v)"
    | "operation = ASL" "step = (\<lambda>carry v. arithmeticShiftLeft v)"
    | "operation = ASR" "step = (\<lambda>carry v. arithmeticShiftRight v)"
    | "operation = CSLC" "step = (\<lambda>carry v. circularShiftLeftWithCarry v carry)"
    | "operation = CSRC" "step = (\<lambda>carry v. circularShiftRightWithCarry v carry)"
    by auto
  then show ?thesis
  proof cases
    case 1
    with x tl show ?thesis by (simp add: LSL_def logicalShiftLeft_def)
  next
    case 2
    with ne bl assms(2) show ?thesis by (simp add: LSR_def logicalShiftRight_def)
  next
    case 3
    with x tl show ?thesis by (simp add: ASL_def arithmeticShiftLeft_def)
  next
    case 4
    with ne bl assms(2) show ?thesis by (simp add: ASR_def arithmeticShiftRight_def)
  next
    case 5
    with x tl show ?thesis by (simp add: CSLC_def circularShiftLeftWithCarry_def)
  next
    case 6
    with ne bl assms(2) show ?thesis by (simp add: CSRC_def circularShiftRightWithCarry_def)
  qed
qed

text \<open>
  Claim C3, as the code has it. Let a carry-writing shift (LSL, LSR, ASL, ASR, CSLC,
  CSRC) run with any shift count on a destination register that is not the Flags
  register itself, in a machine of width \<open>W \<ge> 1\<close> whose Flags cell is not empty and
  whose destination cell has two characters at least. Then the shift loop returns a
  final carry and a shifted string, the operation succeeds, the destination holds the
  shifted string, and the Flags cell holds \<open>W - 1\<close> characters \<open>0\<close> followed by the
  final carry: it is \<open>W\<close> characters long, as every other cell.
\<close>

theorem carry_shift_flags_cell:
  assumes "(operation, step) \<in> set
       [(LSL, \<lambda>carry v. logicalShiftLeft v), (LSR, \<lambda>carry v. logicalShiftRight v),
        (ASL, \<lambda>carry v. arithmeticShiftLeft v), (ASR, \<lambda>carry v. arithmeticShiftRight v),
        (CSLC, \<lambda>carry v. circularShiftLeftWithCarry v carry),
        (CSRC, \<lambda>carry v. circularShiftRightWithCarry v carry)]"
    and "memoryPool self (flagRegisterAddress (numberOfGeneralPurposeRegisters self)) = Some flags"
    and "flags \<noteq> []"
    and "memoryPool self destinationOperand = Some cell"
    and "2 \<le> length cell"
    and "destinationOperand \<noteq> flagRegisterAddress (numberOfGeneralPurposeRegisters self)"
    and "1 \<le> totalNumberOfBits self"
  shows "\<exists>carry shifted self1.
           shiftLoop step (nat sourceOperand) (last flags, cell) = Inr (carry, shifted)
         \<and> operation self (IntOperand sourceOperand) destinationOperand = Inr self1
         \<and> memoryPool self1 (flagRegisterAddress (numberOfGeneralPurposeRegisters self))
             = Some (replicate (nat (totalNumberOfBits self - 1)) CHR ''0'' @ [carry])
         \<and> int (length (replicate (nat (totalNumberOfBits self - 1)) CHR ''0'' @ [carry]))
             = totalNumberOfBits self
         \<and> memoryPool self1 destinationOperand = Some shifted"
proof -
  have op: "operation = carryShift step"
    using carry_steps_total[OF assms(1) assms(5) refl] by blast
  have "\<And>c v. length v = length cell \<Longrightarrow> \<exists>c1 v1. step c v = Inr (c1, v1) \<and> length v1 = length cell"
    using carry_steps_total[OF assms(1) assms(5)] by blast
  from shiftLoop_total[where step = step and n = "nat sourceOperand" and c = "last flags",
      OF this refl]
  obtain carry shifted
    where loop: "shiftLoop step (nat sourceOperand) (last flags, cell) = Inr (carry, shifted)"
    by blast
  have len: "int (length (replicate (nat (totalNumberOfBits self - 1)) CHR ''0'' @ [carry]))
               = totalNumberOfBits self"
    using assms(7) by simp
  show ?thesis
    using loop len assms(2,3,4,6)
    by (simp add: op carryShift_def Let_def pool_get_def padBinary_def str_times_zero_char)
qed

theorem carry_shift_flags_cell_witness:
  "(case LSL \<lparr>memoryPool = [- 8 \<mapsto> ''0000'', - 5 \<mapsto> ''1001''], totalNumberOfBits = 4,
              numberOfGeneralPurposeRegisters = 4, terminalInput = [], terminalOutput = []\<rparr>
          (IntOperand 1) (- 5) of
      Inl e \<Rightarrow> None
    | Inr self1 \<Rightarrow> memoryPool self1 (- 8))
   = Some ''0001''"
proof -
  let ?m = "\<lparr>memoryPool = [- 8 \<mapsto> ''0000'', - 5 \<mapsto> ''1001''], totalNumberOfBits = 4,
        numberOfGeneralPurposeRegisters = 4, terminalInput = [], terminalOutput = []\<rparr>"
  have "\<exists>carry shifted self1.
           shiftLoop (\<lambda>carry v. logicalShiftLeft v) (nat 1) (last ''0000'', ''1001'') = Inr (carry, shifted)
         \<and> LSL ?m (IntOperand 1) (- 5) = Inr self1
         \<and> memoryPool self1 (flagRegisterAddress (numberOfGeneralPurposeRegisters ?m))
             = Some (replicate (nat (totalNumberOfBits ?m - 1)) CHR ''0'' @ [carry])
         \<and> int (length (replicate (nat (totalNumberOfBits ?m - 1)) CHR ''0'' @ [carry]))
             = totalNumberOfBits ?m
         \<and> memoryPool self1 (- 5) = Some shifted"
    by (rule carry_shift_flags_cell [where flags = "''0000''" and cell = "''1001''"])
       (simp_all add: flagRegisterAddress_def FLAGS_REGISTER_OFFSET_def)
  then obtain carry shifted self1
    where loop: "shiftLoop (\<lambda>carry v. logicalShiftLeft v) (nat 1) (last ''0000'', ''1001'')
                   = Inr (carry, shifted)"
      and run: "LSL ?m (IntOperand 1) (- 5) = Inr self1"
      and flags: "memoryPool self1 (flagRegisterAddress (numberOfGeneralPurposeRegisters ?m))
                    = Some (replicate (nat (totalNumberOfBits ?m - 1)) CHR ''0'' @ [carry])"
    by blast
  from loop have "carry = CHR ''1''" by (simp add: logicalShiftLeft_def)
  with flags have "memoryPool self1 (- 8) = Some ''0001''"
    by (simp add: flagRegisterAddress_def FLAGS_REGISTER_OFFSET_def eval_nat_numeral)
  with run show ?thesis by simp
qed

text \<open>
  The claim as stated gives the Flags cell \<open>W - 1\<close> characters. In the default machine
  (width 24, 10 general registers: the accumulator at \<open>-11\<close>, the Flags register at
  \<open>-14\<close>) one logical shift left of the accumulator leaves a Flags cell of 24
  characters, not 23.
\<close>

theorem carry_shift_flags_width_counterexample:
  "(case LSL \<lparr>memoryPool = [- 14 \<mapsto> ''000000000000000000000000'',
                            - 11 \<mapsto> ''100000000000000000000001''],
              totalNumberOfBits = 24, numberOfGeneralPurposeRegisters = 10,
              terminalInput = [], terminalOutput = []\<rparr> (IntOperand 1) (- 11) of
      Inl e \<Rightarrow> None
    | Inr self1 \<Rightarrow> memoryPool self1 (- 14))
   = Some ''000000000000000000000001''
   \<and> length ''000000000000000000000001'' = 24
   \<and> length ''000000000000000000000001'' \<noteq> 24 - 1"
  by (simp add: LSL_def carryShift_def Let_def pool_get_def padBinary_def str_times_def
      logicalShiftLeft_def flagRegisterAddress_def FLAGS_REGISTER_OFFSET_def eval_nat_numeral)

text \<open>When the destination is the Flags register itself, the value written last wins:
  the cell holds the shifted string, here \<open>0001\<close> after a shift right that carried
  out a \<open>0\<close>, and not the padded carry.\<close>

lemma carry_shift_on_flags_register:
  "(case LSR \<lparr>memoryPool = [- 8 \<mapsto> ''0010''], totalNumberOfBits = 4,
              numberOfGeneralPurposeRegisters = 4, terminalInput = [], terminalOutput = []\<rparr>
          (IntOperand 1) (- 8) of
      Inl e \<Rightarrow> None
    | Inr self1 \<Rightarrow> memoryPool self1 (- 8))
   = Some ''0001''
   \<and> shiftLoop (\<lambda>carry v. logicalShiftRight v) 1 (CHR ''0'', ''0010'') = Inr (CHR ''0'', ''0001'')"
  by (simp add: LSR_def carryShift_def Let_def pool_get_def padBinary_def str_times_def
      logicalShiftRight_def flagRegisterAddress_def FLAGS_REGISTER_OFFSET_def eval_nat_numeral)

subsection \<open>The end of the token stream\<close>

text \<open>
  Claim C9 at a source text of one blank. The loop skips the blank and leaves the token
  stream empty; the source is not empty, so the last token of the stream is read, and
  the read raises IndexError: the tokenisation does not complete.
\<close>

theorem tokeniseSourceCode_blank_IndexError:
  "tokeniseSourceCode
     \<lparr>sourceCode = '' '', commentPrefix = CHR '';'', lexingErrors = [],
      lexerPositionTracker = \<lparr>row = 1, column = 1\<rparr>\<rparr>
   = Some (Inl IndexError)"
  by (simp add: tokeniseSourceCode_def tokeniseLoop.simps WHITE_SPACE_CHARACTERS_def
      advanceColumn_def py_index_def)

text \<open>The same holds for a source text of one comment.\<close>

lemma tokeniseSourceCode_comment_IndexError:
  "tokeniseSourceCode
     \<lparr>sourceCode = '';x'', commentPrefix = CHR '';'', lexingErrors = [],
      lexerPositionTracker = \<lparr>row = 1, column = 1\<rparr>\<rparr>
   = Some (Inl IndexError)"
  by (simp add: tokeniseSourceCode_def tokeniseLoop.simps skipOverComment_def Let_def
      scanSubstring.simps LINE_BREAK_CHARACTERS_def py_index_def)

subsection \<open>Parser: the value of a branch label\<close>

lemma lex_bare_label_source:
  "lex \<lparr>sourceCode = ''FOO'' @ [CHR 0x0A] @ ''LOOP OUT'' @ [CHR 0x0A] @ ''BRA LOOP'' @ [CHR 0x0A],
        commentPrefix = CHR '';'', lexingErrors = [],
        lexerPositionTracker = \<lparr>row = 1, column = 1\<rparr>\<rparr> =
   Some (Inr ([mkTypedToken LABEL ''FOO'' 1 1, mkTypedToken END ''/'' 1 4,
               mkTypedToken LABEL ''LOOP'' 2 1, mkTypedToken INSTRUCTION ''OUT'' 2 6,
               mkTypedToken END ''/'' 2 9, mkTypedToken INSTRUCTION ''BRA'' 3 1,
               mkTypedToken LABEL ''LOOP'' 3 5, mkTypedToken END ''/'' 3 9], []))"
  by code_simp

text \<open>
  Claim C5 at the program of three lines \<open>FOO\<close>, \<open>LOOP OUT\<close>, \<open>BRA LOOP\<close>, whose first
  line is a label alone. The parser accepts the tokens of the program and classifies
  \<open>LOOP\<close> as a branch label of value 1, the number of END tokens before it, although no
  INSTRUCTION token comes before it in the stream of the pool: the statement of the
  label alone has advanced the count.
\<close>

theorem parse_bare_label_branch_value:
  "parse (newParser
       [mkTypedToken LABEL ''FOO'' 1 1, mkTypedToken END ''/'' 1 4,
        mkTypedToken LABEL ''LOOP'' 2 1, mkTypedToken INSTRUCTION ''OUT'' 2 6,
        mkTypedToken END ''/'' 2 9, mkTypedToken INSTRUCTION ''BRA'' 3 1,
        mkTypedToken LABEL ''LOOP'' 3 5, mkTypedToken END ''/'' 3 9]) =
     Inr (Inr ([],
       \<lparr>poolIdentifier = ''.MAIN'',
        tokenStream =
          [mkTypedToken LABEL ''FOO'' 1 1, mkTypedToken END ''/'' 1 4,
           mkTypedToken LABEL ''LOOP'' 2 1, mkTypedToken INSTRUCTION ''OUT'' 2 6,
           mkTypedToken END ''/'' 2 9, mkTypedToken INSTRUCTION ''BRA'' 3 1,
           mkTypedToken LABEL ''LOOP'' 3 5, mkTypedToken END ''/'' 3 9],
        symbolTable =
          [(''LOOP'', \<lparr>labelIdentifier = ''LOOP'', labelValue = 1,
                        labelType = BRANCH_LABEL\<rparr>)]\<rparr>))
   \<and> filter (\<lambda>t. tokenType t = INSTRUCTION)
        (take 2 [mkTypedToken LABEL ''FOO'' 1 1, mkTypedToken END ''/'' 1 4,
                 mkTypedToken LABEL ''LOOP'' 2 1, mkTypedToken INSTRUCTION ''OUT'' 2 6,
                 mkTypedToken END ''/'' 2 9, mkTypedToken INSTRUCTION ''BRA'' 3 1,
                 mkTypedToken LABEL ''LOOP'' 3 5, mkTypedToken END ''/'' 3 9]) = []"
  by code_simp

text \<open>Without the line of the label alone the same label gets the value 0.\<close>

lemma parse_branch_value_without_bare_label:
  "parse (newParser
       [mkTypedToken LABEL ''LOOP'' 1 1, mkTypedToken INSTRUCTION ''OUT'' 1 6,
        mkTypedToken END ''/'' 1 9, mkTypedToken INSTRUCTION ''BRA'' 2 1,
        mkTypedToken LABEL ''LOOP'' 2 5, mkTypedToken END ''/'' 2 9]) =
     Inr (Inr ([],
       \<lparr>poolIdentifier = ''.MAIN'',
        tokenStream =
          [mkTypedToken LABEL ''LOOP'' 1 1, mkTypedToken INSTRUCTION ''OUT'' 1 6,
           mkTypedToken END ''/'' 1 9, mkTypedToken INSTRUCTION ''BRA'' 2 1,
           mkTypedToken LABEL ''LOOP'' 2 5, mkTypedToken END ''/'' 2 9],
        symbolTable =
          [(''LOOP'', \<lparr>labelIdentifier = ''LOOP'', labelValue = 0,
                        labelType = BRANCH_LABEL\<rparr>)]\<rparr>))"
  by code_simp

subsection \<open>Parser: a procedure defined twice\<close>

lemma setGlobalTokens_same [simp]:
  "setGlobalTokens self (tokenStream (globalInstructionPool self)) = self"
  by (simp add: setGlobalTokens_def)

lemma setGlobalTokens_twice [simp]:
  "setGlobalTokens (setGlobalTokens self xs) ys = setGlobalTokens self ys"
  by (simp add: setGlobalTokens_def)

lemma tokenStream_setGlobalTokens [simp]:
  "tokenStream (globalInstructionPool (setGlobalTokens self xs)) = xs"
  by (simp add: setGlobalTokens_def)

lemma getInstructionPoolsLoop_plain_tokens:
  "\<forall>t\<in>set xs. tokenType t \<noteq> LEFT_BRACE \<Longrightarrow>
   getInstructionPoolsLoop self (xs @ ys) =
   getInstructionPoolsLoop
     (setGlobalTokens self (tokenStream (globalInstructionPool self) @ xs)) ys"
  by (induction xs arbitrary: self) simp_all

lemma collectProcedureTokens_body:
  "\<forall>t\<in>set body. tokenType t \<noteq> RIGHT_BRACE \<Longrightarrow> tokenType rightBrace = RIGHT_BRACE \<Longrightarrow>
   collectProcedureTokens acc (body @ rightBrace # rest) = Inr (acc @ body, rest)"
  by (induction body arbitrary: acc) simp_all

lemma popProcedureLabel_label:
  "tokenType label \<noteq> END \<Longrightarrow>
   popProcedureLabel (setGlobalTokens self (tokens @ [label])) =
   Inr (label, setGlobalTokens self tokens)"
  by (simp add: popProcedureLabel_def list_pop_def)

lemma popProcedureLabel_label_line_break:
  "tokenType lineBreak = END \<Longrightarrow>
   popProcedureLabel (setGlobalTokens self (tokens @ [label, lineBreak])) =
   Inr (label, setGlobalTokens self tokens)"
  by (simp add: popProcedureLabel_def list_pop_def butlast_append)

text \<open>One definition of a procedure: the label, at most one END token (the line break
  that may stand before the brace), the left brace and the token after it, the body up
  to the right brace and the token after that.\<close>

lemma getInstructionPoolsLoop_procedure:
  assumes "tokenType label \<noteq> END" "tokenType label \<noteq> LEFT_BRACE"
    and "length lineBreak \<le> 1" "\<forall>t\<in>set lineBreak. tokenType t = END"
    and "tokenType leftBrace = LEFT_BRACE" "tokenType rightBrace = RIGHT_BRACE"
    and "\<forall>t\<in>set body. tokenType t \<noteq> RIGHT_BRACE"
  shows "getInstructionPoolsLoop self
           (label # lineBreak @ leftBrace # afterLeft # body @ rightBrace # afterRight # rest) =
         getInstructionPoolsLoop
           (self\<lparr>instructionPools :=
                   AList.update (tokenValue label)
                     \<lparr>poolIdentifier = tokenValue label, tokenStream = body,
                      symbolTable = []\<rparr>
                     (instructionPools self)\<rparr>)
           rest"
proof -
  have collect: "collectProcedureTokens [] (body @ rightBrace # afterRight # rest) =
                 Inr (body, afterRight # rest)"
    using collectProcedureTokens_body [OF assms(7) assms(6), of "[]" "afterRight # rest"]
    by simp
  show ?thesis
  proof (cases lineBreak)
    case Nil
    have pop: "popProcedureLabel
                 (setGlobalTokens self (tokenStream (globalInstructionPool self) @ [label])) =
               Inr (label, self)"
      using popProcedureLabel_label [OF assms(1), of self "tokenStream (globalInstructionPool self)"]
      by simp
    show ?thesis
      using assms(2,5) Nil by (simp add: pop collect getProcedureTokens_def)
  next
    case (Cons e es)
    with assms(3,4) have e: "lineBreak = [e]" "tokenType e = END" by simp_all
    have pop: "popProcedureLabel
                 (setGlobalTokens self (tokenStream (globalInstructionPool self) @ [label, e])) =
               Inr (label, self)"
      using popProcedureLabel_label_line_break
              [OF e(2), of self "tokenStream (globalInstructionPool self)" label]
      by simp
    show ?thesis
      using assms(2,5) e by (simp add: pop collect getProcedureTokens_def)
  qed
qed

text \<open>
  Claim C10. A stream that defines a procedure, goes on with any tokens outside a
  procedure, and defines a procedure of the same identifier again (each definition a
  label, the left brace on the same or on the next line, the token after it, the body
  up to the right brace, and the token after that) is split, from any state of the
  parser, the way the rest of the stream is split from the state in which only the
  second pool is stored under the identifier: the dictionary of pools gets one entry
  for the identifier, with the second body, the tokens in between go to the global
  pool, and the list of errors and every other attribute stay as they were.
\<close>

theorem getInstructionPoolsLoop_redefinition:
  assumes "tokenType label1 \<noteq> END" "tokenType label1 \<noteq> LEFT_BRACE"
    and "tokenType label2 \<noteq> END" "tokenType label2 \<noteq> LEFT_BRACE"
    and "tokenValue label2 = tokenValue label1"
    and "length lineBreak1 \<le> 1" "\<forall>t\<in>set lineBreak1. tokenType t = END"
    and "length lineBreak2 \<le> 1" "\<forall>t\<in>set lineBreak2. tokenType t = END"
    and "tokenType leftBrace1 = LEFT_BRACE" "tokenType rightBrace1 = RIGHT_BRACE"
    and "tokenType leftBrace2 = LEFT_BRACE" "tokenType rightBrace2 = RIGHT_BRACE"
    and "\<forall>t\<in>set body1. tokenType t \<noteq> RIGHT_BRACE"
    and "\<forall>t\<in>set body2. tokenType t \<noteq> RIGHT_BRACE"
    and "\<forall>t\<in>set between. tokenType t \<noteq> LEFT_BRACE"
  shows "getInstructionPoolsLoop self
           (label1 # lineBreak1 @ leftBrace1 # afterLeft1 # body1 @ rightBrace1 # afterRight1 #
            between @
            label2 # lineBreak2 @ leftBrace2 # afterLeft2 # body2 @ rightBrace2 # afterRight2 #
            rest) =
         getInstructionPoolsLoop
           (self\<lparr>instructionPools :=
                   AList.update (tokenValue label1)
                     \<lparr>poolIdentifier = tokenValue label1, tokenStream = body2,
                      symbolTable = []\<rparr>
                     (instructionPools self),
                 globalInstructionPool :=
                   (globalInstructionPool self)
                     \<lparr>tokenStream := tokenStream (globalInstructionPool self) @ between\<rparr>\<rparr>)
           rest"
proof -
  let ?second = "label2 # lineBreak2 @ leftBrace2 # afterLeft2 # body2 @ rightBrace2 #
                 afterRight2 # rest"
  let ?pool1 = "\<lparr>poolIdentifier = tokenValue label1, tokenStream = body1, symbolTable = []\<rparr>"
  let ?self1 = "self\<lparr>instructionPools :=
                        AList.update (tokenValue label1) ?pool1 (instructionPools self)\<rparr>"
  let ?self2 = "setGlobalTokens ?self1 (tokenStream (globalInstructionPool ?self1) @ between)"
  let ?self3 = "?self2\<lparr>instructionPools :=
                         AList.update (tokenValue label2)
                           \<lparr>poolIdentifier = tokenValue label2, tokenStream = body2,
                            symbolTable = []\<rparr>
                           (instructionPools ?self2)\<rparr>"
  let ?result = "self\<lparr>instructionPools :=
                        AList.update (tokenValue label1)
                          \<lparr>poolIdentifier = tokenValue label1, tokenStream = body2,
                           symbolTable = []\<rparr>
                          (instructionPools self),
                      globalInstructionPool :=
                        (globalInstructionPool self)
                          \<lparr>tokenStream := tokenStream (globalInstructionPool self) @ between\<rparr>\<rparr>"
  have "getInstructionPoolsLoop self
          (label1 # lineBreak1 @ leftBrace1 # afterLeft1 # body1 @ rightBrace1 # afterRight1 #
           between @ ?second) =
        getInstructionPoolsLoop ?self1 (between @ ?second)"
    using getInstructionPoolsLoop_procedure [OF assms(1,2,6,7,10,11,14)] .
  also have "\<dots> = getInstructionPoolsLoop ?self2 ?second"
    using getInstructionPoolsLoop_plain_tokens [OF assms(16)] .
  also have "\<dots> = getInstructionPoolsLoop ?self3 rest"
    using getInstructionPoolsLoop_procedure [OF assms(3,4,8,9,12,13,15)] .
  also have "?self3 = ?result"
    by (simp add: assms(5) setGlobalTokens_def)
  finally show ?thesis .
qed

theorem getInstructionPoolsLoop_redefinition_witness:
  "getInstructionPools (newParser
     [mkTypedToken LABEL ''P'' 1 1, mkTypedToken LEFT_BRACE ''{'' 1 3,
      mkTypedToken END ''/'' 1 4, mkTypedToken INSTRUCTION ''RET'' 2 1,
      mkTypedToken END ''/'' 2 4, mkTypedToken RIGHT_BRACE ''}'' 3 1,
      mkTypedToken END ''/'' 3 2, mkTypedToken INSTRUCTION ''NOP'' 4 1,
      mkTypedToken END ''/'' 4 4, mkTypedToken LABEL ''P'' 5 1,
      mkTypedToken END ''/'' 5 2, mkTypedToken LEFT_BRACE ''{'' 6 1,
      mkTypedToken END ''/'' 6 2, mkTypedToken INSTRUCTION ''HLT'' 7 1,
      mkTypedToken END ''/'' 7 4, mkTypedToken RIGHT_BRACE ''}'' 8 1,
      mkTypedToken END ''/'' 8 2]) =
   Inr ((newParser
     [mkTypedToken LABEL ''P'' 1 1, mkTypedToken LEFT_BRACE ''{'' 1 3,
      mkTypedToken END ''/'' 1 4, mkTypedToken INSTRUCTION ''RET'' 2 1,
      mkTypedToken END ''/'' 2 4, mkTypedToken RIGHT_BRACE ''}'' 3 1,
      mkTypedToken END ''/'' 3 2, mkTypedToken INSTRUCTION ''NOP'' 4 1,
      mkTypedToken END ''/'' 4 4, mkTypedToken LABEL ''P'' 5 1,
      mkTypedToken END ''/'' 5 2, mkTypedToken LEFT_BRACE ''{'' 6 1,
      mkTypedToken END ''/'' 6 2, mkTypedToken INSTRUCTION ''HLT'' 7 1,
      mkTypedToken END ''/'' 7 4, mkTypedToken RIGHT_BRACE ''}'' 8 1,
      mkTypedToken END ''/'' 8 2])
     \<lparr>instructionPools :=
        [(''P'', \<lparr>poolIdentifier = ''P'',
                  tokenStream = [mkTypedToken INSTRUCTION ''HLT'' 7 1,
                                 mkTypedToken END ''/'' 7 4],
                  symbolTable = []\<rparr>)],
      globalInstructionPool :=
        \<lparr>poolIdentifier = ''.MAIN'',
         tokenStream = [mkTypedToken INSTRUCTION ''NOP'' 4 1, mkTypedToken END ''/'' 4 4],
         symbolTable = []\<rparr>\<rparr>)"
  using getInstructionPoolsLoop_redefinition
    [where ?label1.0 = "mkTypedToken LABEL ''P'' 1 1"
       and ?label2.0 = "mkTypedToken LABEL ''P'' 5 1"
       and ?lineBreak1.0 = "[]"
       and ?lineBreak2.0 = "[mkTypedToken END ''/'' 5 2]"
       and ?leftBrace1.0 = "mkTypedToken LEFT_BRACE ''{'' 1 3"
       and ?rightBrace1.0 = "mkTypedToken RIGHT_BRACE ''}'' 3 1"
       and ?leftBrace2.0 = "mkTypedToken LEFT_BRACE ''{'' 6 1"
       and ?rightBrace2.0 = "mkTypedToken RIGHT_BRACE ''}'' 8 1"
       and ?body1.0 = "[mkTypedToken INSTRUCTION ''RET'' 2 1, mkTypedToken END ''/'' 2 4]"
       and ?body2.0 = "[mkTypedToken INSTRUCTION ''HLT'' 7 1, mkTypedToken END ''/'' 7 4]"
       and between = "[mkTypedToken INSTRUCTION ''NOP'' 4 1, mkTypedToken END ''/'' 4 4]"
       and ?afterLeft1.0 = "mkTypedToken END ''/'' 1 4"
       and ?afterRight1.0 = "mkTypedToken END ''/'' 3 2"
       and ?afterLeft2.0 = "mkTypedToken END ''/'' 6 2"
       and ?afterRight2.0 = "mkTypedToken END ''/'' 8 2"
       and rest = "[]"
       and self = "newParser
     [mkTypedToken LABEL ''P'' 1 1, mkTypedToken LEFT_BRACE ''{'' 1 3,
      mkTypedToken END ''/'' 1 4, mkTypedToken INSTRUCTION ''RET'' 2 1,
      mkTypedToken END ''/'' 2 4, mkTypedToken RIGHT_BRACE ''}'' 3 1,
      mkTypedToken END ''/'' 3 2, mkTypedToken INSTRUCTION ''NOP'' 4 1,
      mkTypedToken END ''/'' 4 4, mkTypedToken LABEL ''P'' 5 1,
      mkTypedToken END ''/'' 5 2, mkTypedToken LEFT_BRACE ''{'' 6 1,
      mkTypedToken END ''/'' 6 2, mkTypedToken INSTRUCTION ''HLT'' 7 1,
      mkTypedToken END ''/'' 7 4, mkTypedToken RIGHT_BRACE ''}'' 8 1,
      mkTypedToken END ''/'' 8 2]"]
  by (simp add: getInstructionPools_def newParser_def mkTypedToken_def
      GLOBAL_INSTRUCTION_POOL_IDENTIFIER_def)

text \<open>The whole parse of that program records no error and returns the one pool.\<close>

lemma parse_redefinition_example:
  "parse (newParser
     [mkTypedToken LABEL ''P'' 1 1, mkTypedToken LEFT_BRACE ''{'' 1 3,
      mkTypedToken END ''/'' 1 4, mkTypedToken INSTRUCTION ''RET'' 2 1,
      mkTypedToken END ''/'' 2 4, mkTypedToken RIGHT_BRACE ''}'' 3 1,
      mkTypedToken END ''/'' 3 2, mkTypedToken INSTRUCTION ''NOP'' 4 1,
      mkTypedToken END ''/'' 4 4, mkTypedToken LABEL ''P'' 5 1,
      mkTypedToken END ''/'' 5 2, mkTypedToken LEFT_BRACE ''{'' 6 1,
      mkTypedToken END ''/'' 6 2, mkTypedToken INSTRUCTION ''HLT'' 7 1,
      mkTypedToken END ''/'' 7 4, mkTypedToken RIGHT_BRACE ''}'' 8 1,
      mkTypedToken END ''/'' 8 2]) =
   Inr (Inr ([(''P'', \<lparr>poolIdentifier = ''P'',
                        tokenStream = [mkTypedToken INSTRUCTION ''HLT'' 7 1,
                                       mkTypedToken END ''/'' 7 4],
                        symbolTable = []\<rparr>)],
             \<lparr>poolIdentifier = ''.MAIN'',
              tokenStream = [mkTypedToken INSTRUCTION ''NOP'' 4 1, mkTypedToken END ''/'' 4 4],
              symbolTable = [(''P'', \<lparr>labelIdentifier = ''P'', labelValue = - 1,
                                       labelType = PROCEDURE_LABEL\<rparr>)]\<rparr>))"
  by code_simp

subsection \<open>Semantic analyser: the operand of a branch\<close>

lemma lex_branch_to_variable_source:
  "lex \<lparr>sourceCode = ''X DAT 5'' @ [CHR 0x0A] @ ''BRA X'' @ [CHR 0x0A],
        commentPrefix = CHR '';'', lexingErrors = [],
        lexerPositionTracker = \<lparr>row = 1, column = 1\<rparr>\<rparr> =
   Some (Inr ([mkTypedToken LABEL ''X'' 1 1, mkTypedToken ASSEMBLY_DIRECTIVE ''DAT'' 1 3,
        mkTypedToken VALUE ''+5'' 1 7, mkTypedToken END ''/'' 1 8,
        mkTypedToken INSTRUCTION ''BRA'' 2 1, mkTypedToken LABEL ''X'' 2 5,
        mkTypedToken END ''/'' 2 6], []))"
  by code_simp

text \<open>For a label in direct mode \<open>__analyseBranchOperand\<close> depends on one thing, whether
  the symbol table of the pool of the instruction has the label: the type of the label
  and the global pool play no part.\<close>

lemma analyseBranchOperand_direct_label:
  assumes "tokenValue (addressingMode branchOperand) = DIRECT_ADDRESSING_MODE"
    and "tokenType (operandValue branchOperand) = LABEL"
  shows "analyseBranchOperand self branchOperand instructionPool =
         (if symbolTableGet (symbolTable instructionPool)
               (tokenValue (operandValue branchOperand)) = None
          then recordSemanticAnalysisError self
                 (row (operandValue branchOperand)) (column (operandValue branchOperand))
                 ''Invalid Branch Error'' ''Attempting to branch to non-existent location''
          else self)"
  using assms by (simp add: analyseBranchOperand_def split: option.splits)

text \<open>
  Claim C6 at the program of two lines \<open>X DAT 5\<close>, \<open>BRA X\<close>. The parser returns the
  global pool with \<open>X\<close> as a variable label, and the semantic analyser, given that pool,
  records no error for the branch to the variable: it returns the pools, with the
  default tokens inserted.
\<close>

theorem semanticAnalyse_branch_to_variable_label:
  "parse (newParser
       [mkTypedToken LABEL ''X'' 1 1, mkTypedToken ASSEMBLY_DIRECTIVE ''DAT'' 1 3,
        mkTypedToken VALUE ''+5'' 1 7, mkTypedToken END ''/'' 1 8,
        mkTypedToken INSTRUCTION ''BRA'' 2 1, mkTypedToken LABEL ''X'' 2 5,
        mkTypedToken END ''/'' 2 6]) =
     Inr (Inr ([],
       \<lparr>poolIdentifier = ''.MAIN'',
        tokenStream =
          [mkTypedToken END ''/'' 1 8, mkTypedToken INSTRUCTION ''BRA'' 2 1,
           mkTypedToken LABEL ''X'' 2 5, mkTypedToken END ''/'' 2 6],
        symbolTable =
          [(''X'', \<lparr>labelIdentifier = ''X'', labelValue = 5,
                     labelType = VARIABLE_LABEL\<rparr>)]\<rparr>))
   \<and> semanticAnalyse (newSemanticAnalyser []
       \<lparr>poolIdentifier = ''.MAIN'',
        tokenStream =
          [mkTypedToken END ''/'' 1 8, mkTypedToken INSTRUCTION ''BRA'' 2 1,
           mkTypedToken LABEL ''X'' 2 5, mkTypedToken END ''/'' 2 6],
        symbolTable =
          [(''X'', \<lparr>labelIdentifier = ''X'', labelValue = 5,
                     labelType = VARIABLE_LABEL\<rparr>)]\<rparr>) =
     Some (Inr (Inr ([],
       \<lparr>poolIdentifier = ''.MAIN'',
        tokenStream =
          [mkTypedToken END ''/'' 1 8, mkTypedToken INSTRUCTION ''BRA'' 2 1,
           mkTypedToken ADDRESSING_MODE ''@'' 2 5, mkTypedToken LABEL ''X'' 2 5,
           mkTypedToken SEPERATOR '','' 2 6, mkTypedToken ADDRESSING_MODE ''%'' 2 6,
           mkTypedToken REGISTER ''ACC'' 2 6, mkTypedToken END ''/'' 2 6],
        symbolTable =
          [(''X'', \<lparr>labelIdentifier = ''X'', labelValue = 5,
                     labelType = VARIABLE_LABEL\<rparr>)]\<rparr>)))"
  by code_simp

text \<open>A branch in a procedure to a procedure label, which only the global pool has, is
  rejected as a branch to a location that does not exist; so is a branch in a procedure
  to a branch label of the global pool.\<close>

lemma analyseBranchOperand_global_procedure_label:
  "semanticAnalyserErrors
     (analyseBranchOperand
        (newSemanticAnalyser []
           \<lparr>poolIdentifier = ''.MAIN'', tokenStream = [],
            symbolTable = [(''Q'', \<lparr>labelIdentifier = ''Q'', labelValue = - 1,
                                    labelType = PROCEDURE_LABEL\<rparr>)]\<rparr>)
        \<lparr>addressingMode = mkTypedToken ADDRESSING_MODE ''@'' 2 5,
         operandValue = mkTypedToken LABEL ''Q'' 2 5\<rparr>
        \<lparr>poolIdentifier = ''P'', tokenStream = [], symbolTable = []\<rparr>) =
   [ErrorAt ''Invalid Branch Error'' 2 5 ''Attempting to branch to non-existent location'']"
  by code_simp

text \<open>The analysis of a call, for comparison, looks the label up in the pool and then
  in the global pool, and checks its type: the variable label is rejected there.\<close>

lemma analyseCallInstruction_variable_label:
  "semanticAnalyserErrors
     (analyseCallInstruction
        (newSemanticAnalyser [] \<lparr>poolIdentifier = ''.MAIN'', tokenStream = [], symbolTable = []\<rparr>)
        \<lparr>addressingMode = mkTypedToken ADDRESSING_MODE ''@'' 2 6,
         operandValue = mkTypedToken LABEL ''X'' 2 6\<rparr>
        \<lparr>poolIdentifier = ''.MAIN'', tokenStream = [],
         symbolTable = [(''X'', \<lparr>labelIdentifier = ''X'', labelValue = 5,
                                 labelType = VARIABLE_LABEL\<rparr>)]\<rparr>) =
   [ErrorAt ''Invalid Operands Error'' 2 6 ''Call instruction operand must be a procedure label'']"
  by code_simp

end
